theory Spec2Isabelle
  imports Complex_Main "HOL-Library.Word"
begin

section \<open>JavaScript numbers as far as the code compares them\<close>

text \<open>
  The hooks compare the results of \<open>parseFloat\<close> and \<open>Number\<close> with \<open><=\<close> and \<open>>\<close>.
  A double is \<open>NaN\<close>, an infinity or a rational; comparisons of doubles are exact, and
  every comparison with \<open>NaN\<close> is false. The parsers themselves (\<open>parseFloat\<close>,
  \<open>Number\<close>) are built-ins of the language and are taken as parameters.
\<close>

datatype jsnum = NaN | NegInf | Fin rat | PosInf

fun js_less :: "jsnum \<Rightarrow> jsnum \<Rightarrow> bool" where
  "js_less NaN _ = False"
| "js_less _ NaN = False"
| "js_less NegInf NegInf = False"
| "js_less NegInf _ = True"
| "js_less (Fin a) (Fin b) = (a < b)"
| "js_less (Fin a) PosInf = True"
| "js_less (Fin a) NegInf = False"
| "js_less PosInf _ = False"

definition js_gt :: "jsnum \<Rightarrow> jsnum \<Rightarrow> bool" where
  "js_gt a b = js_less b a"

fun js_le :: "jsnum \<Rightarrow> jsnum \<Rightarrow> bool" where
  "js_le NaN _ = False"
| "js_le _ NaN = False"
| "js_le a b = (\<not> js_less b a)"

section \<open>Tokens and swap validation (useSwapTransaction.validateSwap)\<close>

record token =
  address :: string
  symbol :: string
  decimals :: nat
  balance :: string
  icon :: string
  tags :: "string list option"

text \<open>
  \<open>validateSwap\<close> in the order of the source: missing token, empty or non-positive
  amount, amount above the balance, identical addresses.
\<close>

definition validateSwap ::
  "(string \<Rightarrow> jsnum) \<Rightarrow> token option \<Rightarrow> token option \<Rightarrow> string \<Rightarrow> bool" where
  "validateSwap parseFloat fromToken toToken exchangeAmount =
     (case fromToken of
        None \<Rightarrow> False
      | Some f \<Rightarrow>
          (case toToken of
             None \<Rightarrow> False
           | Some t \<Rightarrow>
               if exchangeAmount = [] \<or> js_le (parseFloat exchangeAmount) (Fin 0) then False
               else if js_gt (parseFloat exchangeAmount) (parseFloat (balance f)) then False
               else if address f = address t then False
               else True))"

section \<open>The orchestrating hook (useSwap.executeSwap)\<close>

text \<open>
  The result of a swap attempt: \<open>{success, txHash?, error?}\<close>.
\<close>

record swap_transaction_result =
  st_success :: bool
  st_txHash :: "string option"
  st_error :: "string option"

text \<open>
  \<open>executeSwap\<close> of \<open>useSwap\<close> calls two collaborators: \<open>approveToken\<close> of the
  allowance hook (a \<open>Promise<boolean>\<close>) and \<open>executeSwapTransaction\<close>, the
  \<open>executeSwap\<close> of the transaction hook. The model returns the result together with
  the collaborators that were invoked, in order. The outcomes of the collaborators (\<open>approvalResult\<close>, \<open>swapResult\<close>), and the
  values of \<open>isTokenAllowed\<close> and \<open>isNativeCurrency()\<close>, are parameters.
\<close>

datatype orchestrator_call = ApproveToken | ExecuteSwapTransaction

definition useSwap_executeSwap ::
  "(string \<Rightarrow> jsnum) \<Rightarrow> token option \<Rightarrow> token option \<Rightarrow> string
     \<Rightarrow> bool \<Rightarrow> bool \<Rightarrow> bool \<Rightarrow> swap_transaction_result
     \<Rightarrow> swap_transaction_result \<times> orchestrator_call list" where
  "useSwap_executeSwap parseFloat fromToken toToken exchangeAmount
       isTokenAllowed isNativeCurrency approvalResult swapResult =
     (if \<not> validateSwap parseFloat fromToken toToken exchangeAmount then
        (\<lparr>st_success = False, st_txHash = None, st_error = Some ''Validation failed''\<rparr>, [])
      else if \<not> isTokenAllowed \<and> \<not> isNativeCurrency then
        (if \<not> approvalResult then
           (\<lparr>st_success = False, st_txHash = None, st_error = Some ''Token approval failed''\<rparr>,
            [ApproveToken])
         else (swapResult, [ApproveToken, ExecuteSwapTransaction]))
      else (swapResult, [ExecuteSwapTransaction]))"

section \<open>TransactionService: wallet submissions\<close>

text \<open>
  A promise either resolves with a value or rejects with an error message.
\<close>

datatype 'a outcome = Resolves 'a | Rejects string

datatype approve_amount = AmountString string | AmountBigInt int

text \<open>
  What is handed to the wallet: \<open>writeContract\<close> with the contract address, the
  function name and its two arguments, or \<open>sendTransaction\<close> with recipient and value.
\<close>

datatype wallet_call =
    WriteContract string string string approve_amount
  | SendTransaction string int

text \<open>
  The wallet client answers a call with a hash, with nothing (\<open>undefined\<close>), or rejects.
  \<open>getWalletClient\<close> may itself resolve to nothing or reject; the service's stored
  \<open>primaryWallet\<close> may be \<open>null\<close>.
\<close>

record wallet_client =
  writeContract :: "wallet_call \<Rightarrow> string option outcome"
  sendTransaction :: "wallet_call \<Rightarrow> string option outcome"

record primary_wallet =
  getWalletClient :: "wallet_client option outcome"

record transaction_result =
  tr_success :: bool
  tr_txHash :: "string option"
  tr_error :: "string option"

record approve_token_params =
  ap_tokenAddress :: string
  ap_spenderAddress :: string
  ap_unlimited :: "bool option"

text \<open>\<open>hash || "tempHash"\<close>: a missing or empty hash is replaced.\<close>

definition hash_or_temp :: "string option \<Rightarrow> string" where
  "hash_or_temp h = (case h of None \<Rightarrow> ''tempHash'' | Some x \<Rightarrow> (if x = [] then ''tempHash'' else x))"

text \<open>\<open>await this.primaryWallet?.getWalletClient()\<close>.\<close>

definition awaitWalletClient :: "primary_wallet option \<Rightarrow> wallet_client option outcome" where
  "awaitWalletClient primaryWallet =
     (case primaryWallet of None \<Rightarrow> Resolves None | Some w \<Rightarrow> getWalletClient w)"

definition failed :: "string \<Rightarrow> transaction_result" where
  "failed e = \<lparr>tr_success = False, tr_txHash = None, tr_error = Some e\<rparr>"

definition succeeded :: "string \<Rightarrow> transaction_result" where
  "succeeded h = \<lparr>tr_success = True, tr_txHash = Some h, tr_error = None\<rparr>"

text \<open>
  The amount \<open>approveToken\<close> asks for: the literal of the source when \<open>unlimited\<close>
  (which defaults to \<open>true\<close>), otherwise \<open>ethersParseUnits("1000000", 18)\<close>, that is
  \<open>1000000 * 10^18\<close>.
\<close>

definition approve_maxAmount :: "bool option \<Rightarrow> approve_amount" where
  "approve_maxAmount unlimited =
     (if (case unlimited of None \<Rightarrow> True | Some u \<Rightarrow> u)
      then AmountString
        ''115792089237316195423570985008687907853269984665640564039457584007913129639935''
      else AmountBigInt (1000000 * 10 ^ 18))"

text \<open>
  \<open>approveToken\<close>: the result and the calls made to the wallet client. The optional call
  \<open>walletClient?.writeContract\<close> is skipped when there is no client.
\<close>

definition approveToken ::
  "primary_wallet option \<Rightarrow> approve_token_params \<Rightarrow> transaction_result \<times> wallet_call list" where
  "approveToken primaryWallet params =
     (let maxAmount = approve_maxAmount (ap_unlimited params) in
      case awaitWalletClient primaryWallet of
        Rejects e \<Rightarrow> (failed e, [])
      | Resolves None \<Rightarrow> (succeeded (hash_or_temp None), [])
      | Resolves (Some walletClient) \<Rightarrow>
          (let c = WriteContract (ap_tokenAddress params) ''approve''
                     (ap_spenderAddress params) maxAmount
           in case writeContract walletClient c of
                Rejects e \<Rightarrow> (failed e, [c])
              | Resolves hash \<Rightarrow> (succeeded (hash_or_temp hash), [c])))"

record execute_token_transfer_params =
  tt_tokenAddress :: string
  tt_recipientAddress :: string
  tt_amount :: string
  tt_decimals :: "nat option"
  tt_isNative :: "bool option"

text \<open>
  \<open>executeTokenTransfer\<close>. \<open>parseUnits\<close> (viem) is a parameter; it throws on a string
  that is no decimal number. \<open>tt_amount\<close> is \<open>amount.toString()\<close>. The arguments of an
  optional call are not evaluated when the client is missing, so \<open>parseUnits\<close> is not
  reached then.
\<close>

definition executeTokenTransfer ::
  "(string \<Rightarrow> nat \<Rightarrow> int outcome) \<Rightarrow> primary_wallet option \<Rightarrow> execute_token_transfer_params
     \<Rightarrow> transaction_result \<times> wallet_call list" where
  "executeTokenTransfer parseUnits primaryWallet params =
     (let decimals = (case tt_decimals params of None \<Rightarrow> 6 | Some d \<Rightarrow> d);
          isNative = (case tt_isNative params of None \<Rightarrow> False | Some b \<Rightarrow> b)
      in case awaitWalletClient primaryWallet of
        Rejects e \<Rightarrow> (failed e, [])
      | Resolves None \<Rightarrow> (succeeded (hash_or_temp None), [])
      | Resolves (Some walletClient) \<Rightarrow>
          (if \<not> isNative then
             (case parseUnits (tt_amount params) decimals of
                Rejects e \<Rightarrow> (failed e, [])
              | Resolves units \<Rightarrow>
                  (let c = WriteContract (tt_tokenAddress params) ''transfer''
                             (tt_recipientAddress params) (AmountBigInt units)
                   in case writeContract walletClient c of
                        Rejects e \<Rightarrow> (failed e, [c])
                      | Resolves hash \<Rightarrow> (succeeded (hash_or_temp hash), [c])))
           else
             (case parseUnits (tt_amount params) 18 of
                Rejects e \<Rightarrow> (failed e, [])
              | Resolves units \<Rightarrow>
                  (let c = SendTransaction (tt_recipientAddress params) units
                   in case sendTransaction walletClient c of
                        Rejects e \<Rightarrow> (failed e, [c])
                      | Resolves hash \<Rightarrow> (succeeded (hash_or_temp hash), [c])))))"

text \<open>Reading a string of decimal digits as a natural number.\<close>

definition digit_of :: "char \<Rightarrow> nat option" where
  "digit_of c = (let n = (of_char c :: nat) in if 48 \<le> n \<and> n \<le> 57 then Some (n - 48) else None)"

fun decimal_acc :: "nat \<Rightarrow> string \<Rightarrow> nat option" where
  "decimal_acc acc [] = Some acc"
| "decimal_acc acc (c # cs) =
     (case digit_of c of None \<Rightarrow> None | Some d \<Rightarrow> decimal_acc (10 * acc + d) cs)"

definition decimal_value :: "string \<Rightarrow> nat option" where
  "decimal_value s = (if s = [] then None else decimal_acc 0 s)"

section \<open>TransactionService: backend responses\<close>

text \<open>
  \<open>makeRequest\<close> throws on a network failure or a non-OK status; otherwise it returns
  the body, whose \<open>error\<close> flag is set (with a message) or which carries the data.
\<close>

datatype 'a api_response = ApiThrows string | ApiError string | ApiData 'a

section \<open>TransactionService: allowance check\<close>

record allowance_data =
  ad_unit :: string
  ad_allowance :: string
  ad_contractAddress :: string

record check_allowance_result =
  hasAllowance :: bool
  allowanceAmount :: string

text \<open>
  \<open>checkAllowance\<close> posts to \<open>/apiSwap/getAllowance\<close> and reads the answer; every
  failure is caught and reported as no allowance. \<open>Number\<close> is a parameter. The model
  returns the result and the endpoints requested.
\<close>

definition checkAllowance ::
  "(string \<Rightarrow> jsnum) \<Rightarrow> allowance_data api_response \<Rightarrow> check_allowance_result \<times> string list" where
  "checkAllowance Number response =
     (case response of
        ApiData d \<Rightarrow>
          (\<lparr>hasAllowance = js_gt (Number (ad_allowance d)) (Fin 0),
            allowanceAmount = ad_allowance d\<rparr>, [''/apiSwap/getAllowance''])
      | _ \<Rightarrow> (\<lparr>hasAllowance = False, allowanceAmount = ''0''\<rparr>, [''/apiSwap/getAllowance'']))"

section \<open>useDepositTransaction: the allowance effect\<close>

record user =
  walletAddress :: "string option"
  username :: string

text \<open>
  The symbols that are transferred directly. The fourth one is \<open>USD\<close>, the tugrik sign
  (U+20AE, here as its three UTF-8 bytes) and \<open>0\<close>.
\<close>

definition directSymbols :: "string list" where
  "directSymbols =
     [''USDT'', ''USDC'', ''55Swap'', ''USD'' @ [char_of (226::nat), char_of (130::nat), char_of (174::nat)] @ ''0'',
      ''USDT0'']"

text \<open>\<open>!user?.walletAddress\<close>: no user, no address, or an empty address.\<close>

definition noWalletAddress :: "user option \<Rightarrow> bool" where
  "noWalletAddress u =
     (case u of None \<Rightarrow> True
      | Some v \<Rightarrow> (case walletAddress v of None \<Rightarrow> True | Some a \<Rightarrow> a = []))"

text \<open>\<open>selectedToken.tags?.includes("native")\<close>.\<close>

definition hasNativeTag :: "token \<Rightarrow> bool" where
  "hasNativeTag tok = (case tags tok of None \<Rightarrow> False | Some ts \<Rightarrow> ''native'' \<in> set ts)"

text \<open>
  The effect that recomputes \<open>isApproved\<close>: the value it sets, and the endpoints it
  requested on the way.
\<close>

definition allowanceEffect ::
  "(string \<Rightarrow> jsnum) \<Rightarrow> token option \<Rightarrow> user option \<Rightarrow> allowance_data api_response
     \<Rightarrow> bool \<times> string list" where
  "allowanceEffect Number selectedToken usr response =
     (case selectedToken of
        None \<Rightarrow> (True, [])
      | Some tok \<Rightarrow>
          if noWalletAddress usr \<or> hasNativeTag tok then (True, [])
          else if symbol tok \<in> set directSymbols then (True, [])
          else (let (res, reqs) = checkAllowance Number response
                in (hasAllowance res, reqs)))"

section \<open>TransactionService: conversion cache\<close>

text \<open>
  The amounts of a quote are JavaScript numbers. Their arithmetic is left abstract: the
  service is parametrised by the multiplication, the division and the falsiness test
  (\<open>!amount\<close>) of the number type, so that what is proved holds for IEEE doubles as for
  any other arithmetic.
\<close>

record 'n num_ops =
  num_times :: "'n \<Rightarrow> 'n \<Rightarrow> 'n"
  num_divide :: "'n \<Rightarrow> 'n \<Rightarrow> 'n"
  num_falsy :: "'n \<Rightarrow> bool"

record 'n conversion_data =
  cd_fromToken :: string
  cd_toToken :: string
  cd_fromAmount :: 'n
  cd_toAmount :: 'n
  cd_estimateGas :: "string option"

text \<open>
  A cache entry as \<open>JSON.parse\<close> returns it: the quote and its capture time in
  milliseconds, which a foreign entry may lack.
\<close>

record 'n cached_conversion_data = "'n conversion_data" +
  timestamp :: "int option"

text \<open>
  \<open>localStorage\<close> maps keys to strings; a stored string is represented by what
  \<open>JSON.parse\<close> makes of it: it throws (\<open>Unparsable\<close>) or yields an entry.
\<close>

datatype 'n stored_item = Unparsable | Parsed "'n cached_conversion_data"

type_synonym 'n local_storage = "string \<rightharpoonup> 'n stored_item"

definition generateCacheKey :: "string \<Rightarrow> string \<Rightarrow> string \<Rightarrow> string" where
  "generateCacheKey network fromToken toToken =
     ''token_conversion_'' @ network @ ''_'' @ fromToken @ ''_'' @ toToken"

text \<open>
  \<open>isCacheExpired\<close>, with \<open>Date.now()\<close> as \<open>now\<close>. \<open>!cachedData.timestamp\<close> holds
  for a missing timestamp and for the timestamp \<open>0\<close>.
\<close>

definition isCacheExpired :: "int \<Rightarrow> 'n cached_conversion_data \<Rightarrow> int \<Rightarrow> bool" where
  "isCacheExpired now cachedData expirationTimeMs =
     (case timestamp cachedData of
        None \<Rightarrow> True
      | Some t \<Rightarrow> if t = 0 then True else now - t > expirationTimeMs)"

text \<open>
  \<open>getCachedConversion\<close>: the entry returned (or \<open>null\<close>) and the storage afterwards.
  \<open>isCacheExpired\<close> is called with its default of two minutes.
\<close>

definition getCachedConversion ::
  "int \<Rightarrow> 'n local_storage \<Rightarrow> string \<Rightarrow> 'n cached_conversion_data option \<times> 'n local_storage" where
  "getCachedConversion now storage cacheKey =
     (case storage cacheKey of
        None \<Rightarrow> (None, storage)
      | Some Unparsable \<Rightarrow> (None, storage)
      | Some (Parsed parsedCache) \<Rightarrow>
          if \<not> isCacheExpired now parsedCache (2 * 60 * 1000) then (Some parsedCache, storage)
          else (None, storage(cacheKey := None)))"

text \<open>
  \<open>setCachedConversion\<close> stores the quote with the current time. \<open>setItem\<close> may throw
  (storage full); the exception is swallowed and nothing is stored.
\<close>

definition setCachedConversion ::
  "bool \<Rightarrow> int \<Rightarrow> 'n local_storage \<Rightarrow> string \<Rightarrow> 'n conversion_data \<Rightarrow> 'n local_storage" where
  "setCachedConversion writable now storage cacheKey conversionData =
     (if writable
      then storage(cacheKey \<mapsto> Parsed (conversion_data.extend conversionData
                                           (cached_conversion_data.fields (Some now))))
      else storage)"

section \<open>TransactionService: getTokenConversion\<close>

record 'n get_token_conversion_params =
  cp_network :: string
  cp_fromToken :: string
  cp_toToken :: string
  cp_amount :: 'n
  cp_username :: string

record 'n get_token_conversion_result =
  gc_success :: bool
  gc_conversion :: "'n conversion_data option"
  gc_error :: "string option"
  gc_fromCache :: "bool option"

text \<open>What the service touches: the storage, the endpoints requested, the toasts shown.\<close>

record 'n service_state =
  localStorage :: "'n local_storage"
  requests :: "string list"
  serviceToasts :: "string list"

text \<open>\<open>String.prototype.includes\<close> and \<open>toLowerCase\<close> (on the ASCII letters).\<close>

fun includes_str :: "string \<Rightarrow> string \<Rightarrow> bool" where
  "includes_str [] needle = (needle = [])"
| "includes_str (c # cs) needle =
     (take (length needle) (c # cs) = needle \<or> includes_str cs needle)"

definition toLowerCase :: "string \<Rightarrow> string" where
  "toLowerCase s =
     map (\<lambda>c. let n = (of_char c :: nat) in if 65 \<le> n \<and> n \<le> 90 then char_of (n + 32) else c) s"

text \<open>The \<open>catch\<close> block of \<open>getTokenConversion\<close>.\<close>

definition conversionFailed ::
  "string \<Rightarrow> 'n service_state \<Rightarrow> 'n get_token_conversion_result \<times> 'n service_state" where
  "conversionFailed message st =
     (\<lparr>gc_success = False, gc_conversion = None, gc_error = Some message, gc_fromCache = None\<rparr>,
      if includes_str (toLowerCase message) ''not supported''
      then st\<lparr>serviceToasts := serviceToasts st @ [message]\<rparr> else st)"

text \<open>The scaled quote both paths return: \<open>amount * (toAmount / fromAmount)\<close>.\<close>

definition scaledConversion ::
  "'n num_ops \<Rightarrow> 'n get_token_conversion_params \<Rightarrow> 'n \<Rightarrow> 'n \<Rightarrow> 'n conversion_data" where
  "scaledConversion ops params quoteFrom quoteTo =
     (let rate = num_divide ops quoteTo quoteFrom;
          calculatedToAmount = num_times ops (cp_amount params) rate
      in \<lparr>cd_fromToken = cp_fromToken params, cd_toToken = cp_toToken params,
          cd_fromAmount = cp_amount params, cd_toAmount = calculatedToAmount,
          cd_estimateGas = None\<rparr>)"

text \<open>
  \<open>getTokenConversion\<close>. \<open>now\<close> is \<open>Date.now()\<close> when the cache is read, \<open>later\<close>
  when the fresh quote is stored; \<open>response\<close> is the backend's answer to the request,
  if one is made; \<open>writable\<close> tells whether \<open>setItem\<close> succeeds.
\<close>

definition getTokenConversion ::
  "'n num_ops \<Rightarrow> int \<Rightarrow> int \<Rightarrow> bool \<Rightarrow> 'n conversion_data api_response
     \<Rightarrow> 'n get_token_conversion_params \<Rightarrow> 'n service_state
     \<Rightarrow> 'n get_token_conversion_result \<times> 'n service_state" where
  "getTokenConversion ops now later writable response params st =
     (if num_falsy ops (cp_amount params) then
        (\<lparr>gc_success = False, gc_conversion = None,
          gc_error = Some ''Amount is required for conversion'', gc_fromCache = None\<rparr>, st)
      else
        (let cacheKey = generateCacheKey (cp_network params) (cp_fromToken params) (cp_toToken params);
             (cachedConversion, storage1) = getCachedConversion now (localStorage st) cacheKey;
             st1 = st\<lparr>localStorage := storage1\<rparr>
         in case cachedConversion of
              Some cached \<Rightarrow>
                (\<lparr>gc_success = True,
                  gc_conversion = Some (scaledConversion ops params (cd_fromAmount cached) (cd_toAmount cached)),
                  gc_error = None, gc_fromCache = Some True\<rparr>, st1)
            | None \<Rightarrow>
                (let st2 = st1\<lparr>requests := requests st1 @ [''/apiSwap/getConvert'']\<rparr>
                 in case response of
                      ApiThrows e \<Rightarrow> conversionFailed e st2
                    | ApiError m \<Rightarrow>
                        conversionFailed (if m = [] then ''Failed to get token conversion'' else m) st2
                    | ApiData baseConversion \<Rightarrow>
                        (\<lparr>gc_success = True,
                          gc_conversion = Some (scaledConversion ops params
                             (cd_fromAmount baseConversion) (cd_toAmount baseConversion)),
                          gc_error = None, gc_fromCache = Some False\<rparr>,
                         st2\<lparr>localStorage :=
                               setCachedConversion writable later (localStorage st2) cacheKey
                                 baseConversion\<rparr>))))"

section \<open>The transaction ledger (store)\<close>

datatype transaction_status = PENDING | CONFIRMED | FAILED

datatype transaction_type = SWAP | DEPOSIT

record transaction =
  tx_id :: nat
  tx_hash :: string
  tx_type :: transaction_type
  tx_amount :: string
  tx_tokenSymbol :: string
  tx_network :: string
  tx_status :: transaction_status
  tx_fromToken :: "string option"
  tx_toToken :: "string option"

text \<open>
  Modelled from the spec: \<open>addTransaction\<close> of the application store, which is not among
  the sources. The specification has the record created as an optimistic \<open>PENDING\<close>
  entry of an ordered collection that is never deleted from; the identifier is chosen by
  the store (here: the next free number).
\<close>

definition addTransaction ::
  "string \<Rightarrow> transaction_type \<Rightarrow> string \<Rightarrow> string \<Rightarrow> string \<Rightarrow> string option \<Rightarrow> string option
     \<Rightarrow> transaction list \<Rightarrow> transaction list" where
  "addTransaction h ty amount tokSym net fromSym toSym txs =
     txs @ [\<lparr>tx_id = length txs, tx_hash = h, tx_type = ty, tx_amount = amount,
             tx_tokenSymbol = tokSym, tx_network = net, tx_status = PENDING,
             tx_fromToken = fromSym, tx_toToken = toSym\<rparr>]"

text \<open>
  Modelled from the spec: \<open>_updateTransaction(id, {status})\<close> of the application store,
  which is not among the sources: the status of the entry with that identifier is set.
\<close>

definition updateTransaction :: "nat \<Rightarrow> transaction_status \<Rightarrow> transaction list \<Rightarrow> transaction list" where
  "updateTransaction i st txs = map (\<lambda>t. if tx_id t = i then t\<lparr>tx_status := st\<rparr> else t) txs"

section \<open>The confirmation tracker (useSwapTransaction)\<close>

datatype ledger_call = AddTransaction string | UpdateTransaction nat transaction_status

datatype toast = ToastSuccess string | ToastError string

datatype receipt_status = Success | Reverted

text \<open>
  What \<open>getTransactionReceipt\<close> does for one poll: it resolves with a receipt, resolves
  with nothing, or throws (the transaction is not mined yet).
\<close>

datatype poll_result = Receipt receipt_status | NoReceipt | Throws

text \<open>
  The state of the hook and of what it acts on. The first block are the React state
  variables and refs of the source, under their names. Then: whether \<open>publicClient\<close> and
  the \<open>onTransactionComplete\<close> callback are present; the interval timers that are alive,
  each with the hash its callback closed over; the next timer handle; the polls that await
  \<open>getTransactionReceipt\<close>, each with the hash and the retry count it was called with;
  the ledger of the store; and logs of the ledger calls, toasts, completion callbacks,
  calls of \<open>pollTransactionReceipt\<close> and token refreshes.
\<close>

record swap_hook =
  isLoading :: bool
  checkSuccess :: bool
  transactionSuccess :: bool
  successPop :: bool
  txHash :: string
  isPending :: bool
  timeLeft :: nat
  completedExchangeAmount :: string
  completedReceivedAmount :: string
  completedFromToken :: "token option"
  completedToToken :: "token option"
  pollingIntervalRef :: "nat option"
  retryCountRef :: nat
  publicClient :: bool
  onTransactionComplete :: bool
  intervals :: "(nat \<times> string) list"
  nextTimer :: nat
  inflight :: "(string \<times> nat) list"
  transactions :: "transaction list"
  ledgerCalls :: "ledger_call list"
  toasts :: "toast list"
  completions :: nat
  pollCalls :: nat
  tokenRefreshes :: nat

definition MAX_RETRIES :: nat where
  "MAX_RETRIES = 30"

definition clearInterval :: "nat \<Rightarrow> swap_hook \<Rightarrow> swap_hook" where
  "clearInterval h s = s\<lparr>intervals := filter (\<lambda>p. fst p \<noteq> h) (intervals s)\<rparr>"

text \<open>\<open>if (pollingIntervalRef.current) clearInterval(pollingIntervalRef.current)\<close>.\<close>

definition clearPolling :: "swap_hook \<Rightarrow> swap_hook" where
  "clearPolling s = (case pollingIntervalRef s of None \<Rightarrow> s | Some h \<Rightarrow> clearInterval h s)"

text \<open>\<open>if (onTransactionComplete) onTransactionComplete()\<close>.\<close>

definition callOnTransactionComplete :: "swap_hook \<Rightarrow> swap_hook" where
  "callOnTransactionComplete s =
     (if onTransactionComplete s then s\<lparr>completions := Suc (completions s)\<rparr> else s)"

text \<open>
  Looking the hash up in the store and, if it is there, \<open>_updateTransaction(tx.id, {status})\<close>.
\<close>

definition updateLedger :: "string \<Rightarrow> transaction_status \<Rightarrow> swap_hook \<Rightarrow> swap_hook" where
  "updateLedger h st s =
     (case find (\<lambda>t. tx_hash t = h) (transactions s) of
        None \<Rightarrow> s
      | Some tx \<Rightarrow>
          s\<lparr>transactions := updateTransaction (tx_id tx) st (transactions s),
            ledgerCalls := ledgerCalls s @ [UpdateTransaction (tx_id tx) st]\<rparr>)"

text \<open>
  The retry check, which both the \<open>try\<close> block (no receipt) and the \<open>catch\<close> block
  end with; they differ in the message only.
\<close>

definition retryLimit :: "string \<Rightarrow> nat \<Rightarrow> swap_hook \<Rightarrow> swap_hook" where
  "retryLimit message retryCount s =
     (if retryCount \<ge> MAX_RETRIES then
        callOnTransactionComplete
          ((clearPolling s)\<lparr>isPending := False, toasts := toasts s @ [ToastError message]\<rparr>)
      else s)"

definition timeoutMessage :: string where
  "timeoutMessage = ''Transaction confirmation timeout. Please check your wallet or try again.''"

definition unableMessage :: string where
  "unableMessage = ''Unable to confirm transaction. Please check manually.''"

text \<open>
  \<open>pollTransactionReceipt\<close> after its \<open>await\<close>: what the poll that was called with
  \<open>hash\<close> and \<open>retryCount\<close> does once \<open>getTransactionReceipt\<close> has answered. The
  refresh of the token balances is awaited inside; its failure is caught and ignored.
\<close>

definition pollContinue :: "string \<Rightarrow> nat \<Rightarrow> poll_result \<Rightarrow> swap_hook \<Rightarrow> swap_hook" where
  "pollContinue h retryCount r s =
     (case r of
        Receipt Success \<Rightarrow>
          (let s1 = (clearPolling s)\<lparr>isPending := False, transactionSuccess := True,
                       checkSuccess := True, successPop := True\<rparr>;
               s2 = updateLedger h CONFIRMED s1;
               s3 = s2\<lparr>toasts := toasts s2 @ [ToastSuccess ''Swap Confirmed!''],
                       tokenRefreshes := Suc (tokenRefreshes s2)\<rparr>
           in callOnTransactionComplete s3)
      | Receipt Reverted \<Rightarrow>
          (let s1 = (clearPolling s)\<lparr>isPending := False\<rparr>;
               s2 = updateLedger h FAILED s1;
               s3 = s2\<lparr>toasts := toasts s2 @
                         [ToastError ''Swap transaction reverted on-chain. Please try again.'']\<rparr>
           in callOnTransactionComplete s3)
      | NoReceipt \<Rightarrow> retryLimit timeoutMessage retryCount s
      | Throws \<Rightarrow> retryLimit unableMessage retryCount s)"

text \<open>
  \<open>pollTransactionReceipt\<close> up to its \<open>await\<close>: with a \<open>publicClient\<close> the poll is
  now in flight; without one the retry check runs at once.
\<close>

definition pollStart :: "string \<Rightarrow> nat \<Rightarrow> swap_hook \<Rightarrow> swap_hook" where
  "pollStart h retryCount s =
     (let s1 = s\<lparr>pollCalls := Suc (pollCalls s)\<rparr>
      in if publicClient s1 then s1\<lparr>inflight := inflight s1 @ [(h, retryCount)]\<rparr>
         else retryLimit timeoutMessage retryCount s1)"

text \<open>
  The polling effect, with dependencies \<open>isPending\<close> and \<open>txHash\<close>
  (\<open>pollTransactionReceipt\<close>, the third one, is taken to keep its identity): when a
  dependency changed, the cleanup of the previous run clears the interval the ref holds,
  and the effect starts a new interval if the hook is pending with a hash.
\<close>

definition pollingEffect :: "swap_hook \<Rightarrow> swap_hook" where
  "pollingEffect s =
     (if isPending s \<and> txHash s \<noteq> [] then
        s\<lparr>retryCountRef := 0, pollingIntervalRef := Some (nextTimer s),
          intervals := intervals s @ [(nextTimer s, txHash s)],
          nextTimer := Suc (nextTimer s)\<rparr>
      else s)"

definition render :: "bool \<times> string \<Rightarrow> swap_hook \<Rightarrow> swap_hook" where
  "render deps s =
     (if deps = (isPending s, txHash s) then s else pollingEffect (clearPolling s))"

text \<open>\<open>resetSwapState\<close>.\<close>

definition resetSwapState :: "swap_hook \<Rightarrow> swap_hook" where
  "resetSwapState s =
     clearPolling
       (s\<lparr>checkSuccess := False, transactionSuccess := False, successPop := False,
          txHash := [], isPending := False, timeLeft := 0,
          completedExchangeAmount := [], completedReceivedAmount := [],
          completedFromToken := None, completedToToken := None,
          isLoading := False, retryCountRef := 0\<rparr>)"

text \<open>
  What can happen to a mounted hook: the polling interval with handle \<open>h\<close> fires (its
  callback calls \<open>pollTransactionReceipt(txHash, retryCountRef.current)\<close> and then
  increments the counter); the in-flight poll at position \<open>i\<close> gets its answer;
  \<open>resetSwapState\<close> is called; the one-second countdown ticks. Each is followed by the
  re-render it causes.
\<close>

datatype event = IntervalFires nat | PollResolves nat poll_result | ResetSwapState | CountdownTick

fun step :: "event \<Rightarrow> swap_hook \<Rightarrow> swap_hook" where
  "step (IntervalFires h) s =
     (case map_of (intervals s) h of
        None \<Rightarrow> s
      | Some hash \<Rightarrow>
          (let s1 = pollStart hash (retryCountRef s) s;
               s2 = s1\<lparr>retryCountRef := Suc (retryCountRef s1)\<rparr>
           in render (isPending s, txHash s) s2))"
| "step (PollResolves i r) s =
     (if i < length (inflight s) then
        (let p = inflight s ! i;
             s1 = s\<lparr>inflight := take i (inflight s) @ drop (Suc i) (inflight s)\<rparr>
         in render (isPending s, txHash s) (pollContinue (fst p) (snd p) r s1))
      else s)"
| "step ResetSwapState s = render (isPending s, txHash s) (resetSwapState s)"
| "step CountdownTick s =
     (if isPending s \<and> timeLeft s > 0 then s\<lparr>timeLeft := timeLeft s - 1\<rparr> else s)"

fun run :: "event list \<Rightarrow> swap_hook \<Rightarrow> swap_hook" where
  "run [] s = s"
| "run (e # es) s = run es (step e s)"

text \<open>
  The properties of the hook, as \<open>useSwap\<close> passes them, and the wallet address.
\<close>

record swap_props =
  fromToken :: "token option"
  toToken :: "token option"
  exchangeAmount :: string
  receivedAmount :: string
  slippage :: string
  primaryWalletAddress :: "string option"
  networkName :: string

text \<open>The \<open>catch\<close> and \<open>finally\<close> blocks of \<open>executeSwap\<close>.\<close>

definition swapFailed :: "string \<Rightarrow> swap_hook \<Rightarrow> swap_transaction_result \<times> swap_hook" where
  "swapFailed message s =
     (\<lparr>st_success = False, st_txHash = None, st_error = Some message\<rparr>,
      s\<lparr>checkSuccess := False, transactionSuccess := False,
        toasts := toasts s @ [ToastError message], isLoading := False\<rparr>)"

text \<open>
  The \<open>else\<close> branch of \<open>executeSwap\<close>: the service reported no success or no hash.
\<close>

definition swapRejected :: "transaction_result \<Rightarrow> swap_hook \<Rightarrow> swap_transaction_result \<times> swap_hook" where
  "swapRejected result s =
     (case tr_error result of
        None \<Rightarrow> swapFailed ''Swap transaction failed'' s
      | Some m \<Rightarrow>
          if includes_str m ''User rejected the request''
          then swapFailed ''Transaction rejected by user.'' s
          else swapFailed (if m = [] then ''Swap transaction failed'' else m) s)"

text \<open>\<open>fromToken!.symbol\<close>, after validation has shown the token to be there.\<close>

definition symbolOf :: "token option \<Rightarrow> string" where
  "symbolOf t = (case t of None \<Rightarrow> [] | Some k \<Rightarrow> symbol k)"

text \<open>
  \<open>executeSwap\<close> of the transaction hook (the \<open>executeSwapTransaction\<close> of \<open>useSwap\<close>).
  \<open>serviceResult\<close> is what \<open>TransactionService.executeSwap\<close> does with the request.
\<close>

definition executeSwap ::
  "(string \<Rightarrow> jsnum) \<Rightarrow> swap_props \<Rightarrow> transaction_result outcome \<Rightarrow> swap_hook
     \<Rightarrow> swap_transaction_result \<times> swap_hook" where
  "executeSwap parseFloat props serviceResult s =
     (if \<not> validateSwap parseFloat (fromToken props) (toToken props) (exchangeAmount props) then
        (\<lparr>st_success = False, st_txHash = None, st_error = Some ''Invalid swap parameters''\<rparr>, s)
      else
        (let s1 = s\<lparr>isLoading := True, checkSuccess := False, transactionSuccess := False\<rparr>
         in if primaryWalletAddress props = None \<or> primaryWalletAddress props = Some [] then
              swapFailed ''Wallet address not found'' s1
            else
              (case serviceResult of
                 Rejects e \<Rightarrow> swapFailed e s1
               | Resolves result \<Rightarrow>
                   (case tr_txHash result of
                      None \<Rightarrow> swapRejected result s1
                    | Some h \<Rightarrow>
                        if tr_success result \<and> h \<noteq> [] then
                          (\<lparr>st_success = True, st_txHash = Some h, st_error = None\<rparr>,
                           s1\<lparr>completedExchangeAmount := exchangeAmount props,
                              completedReceivedAmount := receivedAmount props,
                              completedFromToken := fromToken props,
                              completedToToken := toToken props,
                              txHash := h, checkSuccess := True,
                              transactions :=
                                addTransaction h SWAP (exchangeAmount props)
                                  (symbolOf (fromToken props)) (networkName props)
                                  (Some (symbolOf (fromToken props)))
                                  (Some (symbolOf (toToken props))) (transactions s1),
                              ledgerCalls := ledgerCalls s1 @ [AddTransaction h],
                              isPending := True, timeLeft := 90, isLoading := False\<rparr>)
                        else swapRejected result s1))))"

text \<open>The call of \<open>executeSwap\<close> as an event: the new state after the re-render.\<close>

definition swapSubmitted ::
  "(string \<Rightarrow> jsnum) \<Rightarrow> swap_props \<Rightarrow> transaction_result outcome \<Rightarrow> swap_hook \<Rightarrow> swap_hook" where
  "swapSubmitted parseFloat props serviceResult s =
     render (isPending s, txHash s) (snd (executeSwap parseFloat props serviceResult s))"

text \<open>The hook as mounted: nothing pending, no timers, an empty ledger.\<close>

definition mounted :: "bool \<Rightarrow> bool \<Rightarrow> swap_hook" where
  "mounted client callback =
     \<lparr>isLoading = False, checkSuccess = False, transactionSuccess = False, successPop = False,
      txHash = [], isPending = False, timeLeft = 0,
      completedExchangeAmount = [], completedReceivedAmount = [],
      completedFromToken = None, completedToToken = None,
      pollingIntervalRef = None, retryCountRef = 0,
      publicClient = client, onTransactionComplete = callback,
      intervals = [], nextTimer = 1, inflight = [], transactions = [], ledgerCalls = [],
      toasts = [], completions = 0, pollCalls = 0, tokenRefreshes = 0\<rparr>"

text \<open>
  Polling in sequence: the interval fires and the poll it started is answered before the
  interval fires again, once for each result of the list.
\<close>

fun pollCycles :: "nat \<Rightarrow> poll_result list \<Rightarrow> swap_hook \<Rightarrow> swap_hook" where
  "pollCycles h [] s = s"
| "pollCycles h (r # rs) s = pollCycles h rs (step (PollResolves 0 r) (step (IntervalFires h) s))"

definition noReceipt :: "poll_result \<Rightarrow> bool" where
  "noReceipt r = (case r of Receipt _ \<Rightarrow> False | _ \<Rightarrow> True)"

text \<open>
  The state in which a polling session starts: pending with a hash, one interval alive
  (the one the ref holds, closed over that hash), the retry counter at zero, no poll in
  flight.
\<close>

definition pollingStarted :: "nat \<Rightarrow> string \<Rightarrow> swap_hook \<Rightarrow> bool" where
  "pollingStarted h hash s =
     (isPending s \<and> txHash s = hash \<and> hash \<noteq> [] \<and> pollingIntervalRef s = Some h
      \<and> intervals s = [(h, hash)] \<and> retryCountRef s = 0 \<and> inflight s = [])"

text \<open>
  The invariant of a polling session between two polls: as at the start, whatever the
  retry counter.
\<close>

definition polling :: "nat \<Rightarrow> string \<Rightarrow> swap_hook \<Rightarrow> bool" where
  "polling h hash s =
     (isPending s \<and> txHash s = hash \<and> hash \<noteq> [] \<and> pollingIntervalRef s = Some h
      \<and> intervals s = [(h, hash)] \<and> inflight s = [])"

text \<open>
  The message of the timeout toast: the \<open>catch\<close> block has its own, and it is reached
  only when there is a client whose query throws.
\<close>

definition capMessage :: "bool \<Rightarrow> poll_result \<Rightarrow> string" where
  "capMessage client r = (if client \<and> r = Throws then unableMessage else timeoutMessage)"

section \<open>parseFloat on plain decimal literals\<close>











section \<open>Example inputs\<close>

definition tokA :: token where
  "tokA = \<lparr>address = ''0xaaa'', symbol = ''AAA'', decimals = 18, balance = ''50'',
            icon = [], tags = Some []\<rparr>"

definition tokB :: token where
  "tokB = \<lparr>address = ''0xbbb'', symbol = ''BBB'', decimals = 18, balance = ''7'',
            icon = [], tags = None\<rparr>"

text \<open>A stand-in for \<open>parseFloat\<close> on the few strings the examples use.\<close>

definition pf0 :: "string \<Rightarrow> jsnum" where
  "pf0 s = (if s = ''50'' then Fin 50 else if s = ''60'' then Fin 60
            else if s = ''10'' then Fin 10 else if s = ''7'' then Fin 7
            else if s = ''0'' then Fin 0 else NaN)"

definition noHashClient :: wallet_client where
  "noHashClient = \<lparr>writeContract = (\<lambda>_. Resolves None), sendTransaction = (\<lambda>_. Resolves None)\<rparr>"

definition parseUnits0 :: "string \<Rightarrow> nat \<Rightarrow> int outcome" where
  "parseUnits0 s d = (if s = ''10'' then Resolves (10 * 10 ^ d) else Rejects ''invalid number'')"

text \<open>Exact rational arithmetic as one instance of the number operations.\<close>

definition ratOps :: "rat num_ops" where
  "ratOps = \<lparr>num_times = (\<lambda>a b. a * b), num_divide = (\<lambda>a b. a / b), num_falsy = (\<lambda>a. a = 0)\<rparr>"

definition quote0 :: "rat conversion_data" where
  "quote0 = \<lparr>cd_fromToken = ''0xaaa'', cd_toToken = ''0xbbb'', cd_fromAmount = 2, cd_toAmount = 6,
             cd_estimateGas = None\<rparr>"

definition cachedAt :: "int option \<Rightarrow> rat cached_conversion_data" where
  "cachedAt t = conversion_data.extend quote0 (cached_conversion_data.fields t)"

definition params0 :: "rat get_token_conversion_params" where
  "params0 = \<lparr>cp_network = ''1'', cp_fromToken = ''0xaaa'', cp_toToken = ''0xbbb'', cp_amount = 5,
              cp_username = ''alice''\<rparr>"

definition key0 :: string where
  "key0 = generateCacheKey ''1'' ''0xaaa'' ''0xbbb''"

definition serviceWith :: "rat local_storage \<Rightarrow> rat service_state" where
  "serviceWith storage = \<lparr>localStorage = storage, requests = [], serviceToasts = []\<rparr>"

text \<open>A stand-in for \<open>Number\<close> on the strings the examples use.\<close>

definition number0 :: "string \<Rightarrow> jsnum" where
  "number0 s = (if s = ''0'' then Fin 0 else if s = ''1000'' then Fin 1000 else NaN)"

definition alice :: user where
  "alice = \<lparr>walletAddress = Some ''0xa11ce'', username = ''alice''\<rparr>"

definition nativeTok :: token where
  "nativeTok = \<lparr>address = ''0xeee'', symbol = ''ETH'', decimals = 18, balance = ''1'',
                 icon = [], tags = Some [''native'']\<rparr>"

definition usdtTok :: token where
  "usdtTok = \<lparr>address = ''0xddd'', symbol = ''USDT'', decimals = 6, balance = ''1'',
               icon = [], tags = None\<rparr>"

definition allowanceOf :: "string \<Rightarrow> allowance_data" where
  "allowanceOf a = \<lparr>ad_unit = ''wei'', ad_allowance = a, ad_contractAddress = ''0xbbb''\<rparr>"

definition props0 :: swap_props where
  "props0 = \<lparr>fromToken = Some tokA, toToken = Some tokB, exchangeAmount = ''10'',
             receivedAmount = ''7'', slippage = ''Auto'', primaryWalletAddress = Some ''0xa11ce'',
             networkName = ''Ethereum''\<rparr>"

text \<open>A swap with hash \<open>0xabc\<close> was submitted from the freshly mounted hook.\<close>

definition pending0 :: swap_hook where
  "pending0 = swapSubmitted pf0 props0
                (Resolves \<lparr>tr_success = True, tr_txHash = Some ''0xabc'', tr_error = None\<rparr>)
                (mounted True True)"

text \<open>The same session after the interval has fired once: one poll is in flight.\<close>

definition polled0 :: swap_hook where
  "polled0 = step (IntervalFires 1) pending0"


section \<open>Theorems\<close>

subsection \<open>The confirmation tracker: polling in sequence\<close>

lemma cycle_below_cap:
  assumes "polling h hash s" and "retryCountRef s < MAX_RETRIES" and "noReceipt r"
  shows "step (PollResolves 0 r) (step (IntervalFires h) s)
         = s\<lparr>retryCountRef := Suc (retryCountRef s), pollCalls := Suc (pollCalls s)\<rparr>"
  using assms
  by (cases r; cases "publicClient s")
     (simp_all add: polling_def noReceipt_def pollStart_def pollContinue_def retryLimit_def
        render_def Let_def)

lemma polling_kept:
  "polling h hash s \<Longrightarrow> polling h hash (s\<lparr>retryCountRef := a, pollCalls := b\<rparr>)"
  by (simp add: polling_def)

lemma cycles_below_cap:
  "polling h hash s \<Longrightarrow> retryCountRef s + length rs \<le> MAX_RETRIES \<Longrightarrow> \<forall>r\<in>set rs. noReceipt r
   \<Longrightarrow> pollCycles h rs s
       = s\<lparr>retryCountRef := retryCountRef s + length rs, pollCalls := pollCalls s + length rs\<rparr>"
proof (induction rs arbitrary: s)
  case Nil
  then show ?case by simp
next
  case (Cons r rs)
  let ?s1 = "s\<lparr>retryCountRef := Suc (retryCountRef s), pollCalls := Suc (pollCalls s)\<rparr>"
  from Cons.prems have lt: "retryCountRef s < MAX_RETRIES" and nr: "noReceipt r" by simp_all
  have st: "step (PollResolves 0 r) (step (IntervalFires h) s) = ?s1"
    by (rule cycle_below_cap [OF Cons.prems(1) lt nr])
  have p1: "polling h hash ?s1" by (rule polling_kept [OF Cons.prems(1)])
  have ih: "pollCycles h rs ?s1
        = ?s1\<lparr>retryCountRef := retryCountRef ?s1 + length rs, pollCalls := pollCalls ?s1 + length rs\<rparr>"
    using Cons.prems by (intro Cons.IH [OF p1]) simp_all
  have "pollCycles h (r # rs) s = pollCycles h rs ?s1"
    by (simp only: pollCycles.simps st)
  also note ih
  finally show ?case by simp
qed

lemma pollCycles_append: "pollCycles h (xs @ ys) s = pollCycles h ys (pollCycles h xs s)"
  by (induction xs arbitrary: s) simp_all

lemma cycle_at_cap:
  assumes "polling h hash s" and "retryCountRef s \<ge> MAX_RETRIES" and "noReceipt r"
  shows "step (PollResolves 0 r) (step (IntervalFires h) s)
         = s\<lparr>isPending := False, retryCountRef := Suc (retryCountRef s), intervals := [],
              toasts := toasts s @ [ToastError (capMessage (publicClient s) r)],
              completions := (if onTransactionComplete s then Suc (completions s) else completions s),
              pollCalls := Suc (pollCalls s)\<rparr>"
  using assms
  by (cases r; cases "publicClient s"; cases "onTransactionComplete s")
     (simp_all add: polling_def noReceipt_def pollStart_def pollContinue_def retryLimit_def
        render_def Let_def clearPolling_def clearInterval_def callOnTransactionComplete_def
        pollingEffect_def capMessage_def)

lemma clearPolling_upd:
  "clearPolling s =
     s\<lparr>intervals := (case pollingIntervalRef s of None \<Rightarrow> intervals s
                       | Some h \<Rightarrow> filter (\<lambda>p. fst p \<noteq> h) (intervals s))\<rparr>"
  by (simp add: clearPolling_def clearInterval_def split: option.splits)

lemma callOnTransactionComplete_upd:
  "callOnTransactionComplete s =
     s\<lparr>completions := (if onTransactionComplete s then Suc (completions s) else completions s)\<rparr>"
  by (simp add: callOnTransactionComplete_def)

lemma updateLedger_upd:
  "updateLedger h st s =
     s\<lparr>transactions := (case find (\<lambda>t. tx_hash t = h) (transactions s) of
                           None \<Rightarrow> transactions s
                         | Some tx \<Rightarrow> updateTransaction (tx_id tx) st (transactions s)),
       ledgerCalls := (case find (\<lambda>t. tx_hash t = h) (transactions s) of
                         None \<Rightarrow> ledgerCalls s
                       | Some tx \<Rightarrow> ledgerCalls s @ [UpdateTransaction (tx_id tx) st])\<rparr>"
  by (simp add: updateLedger_def split: option.splits)

lemmas hook_upds = clearPolling_upd callOnTransactionComplete_upd updateLedger_upd

lemma cycle_stops_at_cap:
  assumes "polling h hash s" and "retryCountRef s \<ge> MAX_RETRIES"
  shows "intervals (step (PollResolves 0 r) (step (IntervalFires h) s)) = []
         \<and> \<not> isPending (step (PollResolves 0 r) (step (IntervalFires h) s))
         \<and> pollCalls (step (PollResolves 0 r) (step (IntervalFires h) s)) = Suc (pollCalls s)"
proof (cases "noReceipt r")
  case True
  show ?thesis unfolding cycle_at_cap [OF assms True] by simp
next
  case False
  then obtain st where r: "r = Receipt st"
    by (cases r) (simp_all add: noReceipt_def)
  show ?thesis
    using assms unfolding r
    by (cases st; cases "publicClient s")
       (simp_all add: polling_def pollStart_def pollContinue_def retryLimit_def
          render_def Let_def hook_upds pollingEffect_def)
qed

lemma fires_nothing: "intervals s = [] \<Longrightarrow> step (IntervalFires h) s = s"
  by simp

lemma run_fires_nothing: "intervals s = [] \<Longrightarrow> run (map IntervalFires hs) s = s"
  by (induction hs) simp_all

lemma started_polling: "pollingStarted h hash s \<Longrightarrow> polling h hash s \<and> retryCountRef s = 0"
  by (simp add: pollingStarted_def polling_def)

lemma thirty_cycles:
  assumes "pollingStarted h hash s" and "length rs = 30" and "\<forall>r\<in>set rs. noReceipt r"
  shows "pollCycles h rs s = s\<lparr>retryCountRef := 30, pollCalls := pollCalls s + 30\<rparr>"
proof -
  from assms(1) have p: "polling h hash s" and z: "retryCountRef s = 0"
    by (simp_all add: started_polling)
  from z assms(2) have le: "retryCountRef s + length rs \<le> MAX_RETRIES"
    by (simp add: MAX_RETRIES_def)
  show ?thesis
    unfolding cycles_below_cap [OF p le assms(3)] by (simp add: z assms(2))
qed

lemma thirty_polling:
  assumes "pollingStarted h hash s"
  shows "polling h hash (s\<lparr>retryCountRef := 30, pollCalls := pollCalls s + 30\<rparr>)"
  using assms by (simp add: pollingStarted_def polling_def)

text \<open>
  Claim C2, as the hook implements it. In a polling session whose polls are each answered
  before the interval fires again: after 30 consecutive polls without a receipt the tracker
  is still pending; if the 31st poll finds no receipt either, the tracker times out at
  that poll (\<open>isPending\<close> false, the timeout toast shown); whatever the 31st poll
  finds, the polling interval is cleared by it, 31 calls of \<open>pollTransactionReceipt\<close>
  have been made, and no later firing of any interval makes another.
\<close>

theorem retry_cap:
  "pollingStarted h hash s \<and> length rs = 30 \<and> (\<forall>r\<in>set rs. noReceipt r) \<longrightarrow>
     isPending (pollCycles h rs s)
   \<and> pollCalls (pollCycles h rs s) = pollCalls s + 30
   \<and> (noReceipt r31 \<longrightarrow>
        \<not> isPending (pollCycles h (rs @ [r31]) s)
        \<and> toasts (pollCycles h (rs @ [r31]) s)
            = toasts s @ [ToastError (capMessage (publicClient s) r31)])
   \<and> intervals (pollCycles h (rs @ [r31]) s) = []
   \<and> pollCalls (pollCycles h (rs @ [r31]) s) = pollCalls s + 31
   \<and> run (map IntervalFires hs) (pollCycles h (rs @ [r31]) s) = pollCycles h (rs @ [r31]) s"
proof (intro impI, elim conjE)
  assume a: "pollingStarted h hash s" "length rs = 30" "\<forall>r\<in>set rs. noReceipt r"
  let ?t = "s\<lparr>retryCountRef := 30, pollCalls := pollCalls s + 30\<rparr>"
  have t: "pollCycles h rs s = ?t" by (rule thirty_cycles [OF a])
  have pt: "polling h hash ?t" by (rule thirty_polling [OF a(1)])
  have cap: "retryCountRef ?t \<ge> MAX_RETRIES" by (simp add: MAX_RETRIES_def)
  have last: "pollCycles h (rs @ [r31]) s = step (PollResolves 0 r31) (step (IntervalFires h) ?t)"
    by (simp only: pollCycles_append t pollCycles.simps)
  from a(1) have pend: "isPending s" by (simp add: pollingStarted_def)
  have c1: "isPending (pollCycles h rs s)" unfolding t using pend by simp
  have c2: "pollCalls (pollCycles h rs s) = pollCalls s + 30" unfolding t by simp
  have c3: "\<not> isPending (pollCycles h (rs @ [r31]) s)
        \<and> toasts (pollCycles h (rs @ [r31]) s)
            = toasts s @ [ToastError (capMessage (publicClient s) r31)]" if "noReceipt r31"
    unfolding last cycle_at_cap [OF pt cap that] by simp
  from cycle_stops_at_cap [OF pt cap, of r31]
  have c4: "intervals (pollCycles h (rs @ [r31]) s) = []"
    and c5: "pollCalls (pollCycles h (rs @ [r31]) s) = pollCalls s + 31"
    unfolding last by simp_all
  have c6: "run (map IntervalFires hs) (pollCycles h (rs @ [r31]) s) = pollCycles h (rs @ [r31]) s"
    by (rule run_fires_nothing [OF c4])
  from c1 c2 c3 c4 c5 c6
  show "isPending (pollCycles h rs s)
   \<and> pollCalls (pollCycles h rs s) = pollCalls s + 30
   \<and> (noReceipt r31 \<longrightarrow>
        \<not> isPending (pollCycles h (rs @ [r31]) s)
        \<and> toasts (pollCycles h (rs @ [r31]) s)
            = toasts s @ [ToastError (capMessage (publicClient s) r31)])
   \<and> intervals (pollCycles h (rs @ [r31]) s) = []
   \<and> pollCalls (pollCycles h (rs @ [r31]) s) = pollCalls s + 31
   \<and> run (map IntervalFires hs) (pollCycles h (rs @ [r31]) s) = pollCycles h (rs @ [r31]) s"
    by blast
qed

lemma pending0_eq:
  "pending0 = (mounted True True)\<lparr>completedExchangeAmount := ''10'', completedReceivedAmount := ''7'',
       completedFromToken := Some tokA, completedToToken := Some tokB,
       txHash := ''0xabc'', checkSuccess := True,
       transactions := [\<lparr>tx_id = 0, tx_hash = ''0xabc'', tx_type = SWAP, tx_amount = ''10'',
             tx_tokenSymbol = ''AAA'', tx_network = ''Ethereum'', tx_status = PENDING,
             tx_fromToken = Some ''AAA'', tx_toToken = Some ''BBB''\<rparr>],
       ledgerCalls := [AddTransaction ''0xabc''],
       isPending := True, timeLeft := 90, pollingIntervalRef := Some 1,
       intervals := [(1, ''0xabc'')], nextTimer := 2\<rparr>"
  by (simp add: pending0_def swapSubmitted_def executeSwap_def validateSwap_def props0_def
      tokA_def tokB_def pf0_def js_gt_def mounted_def render_def clearPolling_def pollingEffect_def
      addTransaction_def symbolOf_def Let_def)

lemma pending0_started: "pollingStarted 1 ''0xabc'' pending0"
  by (simp add: pending0_eq pollingStarted_def mounted_def)


lemma fire_in_flight:
  assumes "publicClient s" and "map_of (intervals s) h = Some hash"
  shows "step (IntervalFires h) s
         = s\<lparr>retryCountRef := Suc (retryCountRef s), inflight := inflight s @ [(hash, retryCountRef s)],
              pollCalls := Suc (pollCalls s)\<rparr>"
  using assms by (simp add: pollStart_def render_def Let_def)

lemma fires_in_flight:
  "publicClient s \<Longrightarrow> map_of (intervals s) h = Some hash
   \<Longrightarrow> pollCalls (run (replicate n (IntervalFires h)) s) = pollCalls s + n"
proof (induction n arbitrary: s)
  case 0
  then show ?case by simp
next
  case (Suc n)
  let ?t = "s\<lparr>retryCountRef := Suc (retryCountRef s),
               inflight := inflight s @ [(hash, retryCountRef s)], pollCalls := Suc (pollCalls s)\<rparr>"
  have st: "step (IntervalFires h) s = ?t" by (rule fire_in_flight [OF Suc.prems])
  have "run (replicate (Suc n) (IntervalFires h)) s = run (replicate n (IntervalFires h)) ?t"
    by (simp only: replicate_Suc run.simps st)
  moreover have "pollCalls (run (replicate n (IntervalFires h)) ?t) = pollCalls ?t + n"
    using Suc.prems by (intro Suc.IH) simp_all
  ultimately show ?case by simp
qed

lemma pending0_fields:
  "publicClient pending0" "onTransactionComplete pending0" "toasts pending0 = []"
  "pollCalls pending0 = 0" "completions pending0 = 0" "intervals pending0 = [(1, ''0xabc'')]"
  "ledgerCalls pending0 = [AddTransaction ''0xabc'']"
  "map tx_status (transactions pending0) = [PENDING]"
  "map tx_hash (transactions pending0) = [''0xabc'']"
  by (simp_all add: pending0_eq mounted_def)

text \<open>
  The claim as the specification words it fails in two ways. After 30 polls without a
  receipt the 31st poll may find one: the tracker then confirms the swap and shows no
  timeout toast. And when the polls are not answered before the interval fires again, the
  interval keeps firing: 32 firings make 32 calls of \<open>pollTransactionReceipt\<close>.
\<close>

theorem retry_cap_counterexample:
  "toasts (pollCycles 1 (replicate 30 Throws @ [Receipt Success]) pending0)
     = [ToastSuccess ''Swap Confirmed!'']
   \<and> map tx_status (transactions (pollCycles 1 (replicate 30 Throws @ [Receipt Success]) pending0))
     = [CONFIRMED]
   \<and> pollCalls (run (replicate 32 (IntervalFires 1)) pending0) = 32"
proof -
  let ?t = "pending0\<lparr>retryCountRef := 30, pollCalls := pollCalls pending0 + 30\<rparr>"
  have nr: "\<forall>r\<in>set (replicate 30 Throws). noReceipt r"
    by (simp add: noReceipt_def)
  have t: "pollCycles 1 (replicate 30 Throws) pending0 = ?t"
    by (rule thirty_cycles [OF pending0_started _ nr]) simp
  have last: "pollCycles 1 (replicate 30 Throws @ [Receipt Success]) pending0
              = step (PollResolves 0 (Receipt Success)) (step (IntervalFires 1) ?t)"
    by (simp only: pollCycles_append t pollCycles.simps)
  have f: "step (IntervalFires 1) ?t
           = ?t\<lparr>retryCountRef := Suc (retryCountRef ?t),
                 inflight := inflight ?t @ [(''0xabc'', retryCountRef ?t)],
                 pollCalls := Suc (pollCalls ?t)\<rparr>"
    by (rule fire_in_flight) (simp_all add: pending0_fields)
  have a: "toasts (pollCycles 1 (replicate 30 Throws @ [Receipt Success]) pending0)
     = [ToastSuccess ''Swap Confirmed!'']
   \<and> map tx_status (transactions (pollCycles 1 (replicate 30 Throws @ [Receipt Success]) pending0))
     = [CONFIRMED]"
    unfolding last f
    by (simp add: pending0_eq mounted_def pollContinue_def render_def hook_upds pollingEffect_def
        updateTransaction_def Let_def)
  have b: "pollCalls (run (replicate 32 (IntervalFires 1)) pending0) = pollCalls pending0 + 32"
    by (rule fires_in_flight [where hash = "''0xabc''"]) (simp_all add: pending0_fields)
  from a b show ?thesis by (simp add: pending0_fields)
qed

theorem retry_cap_witness:
  "isPending (pollCycles 1 (replicate 30 Throws) pending0)
   \<and> pollCalls (pollCycles 1 (replicate 30 Throws) pending0) = 30
   \<and> \<not> isPending (pollCycles 1 (replicate 30 Throws @ [Throws]) pending0)
   \<and> toasts (pollCycles 1 (replicate 30 Throws @ [Throws]) pending0)
       = [ToastError ''Unable to confirm transaction. Please check manually.'']
   \<and> intervals (pollCycles 1 (replicate 30 Throws @ [Throws]) pending0) = []
   \<and> pollCalls (pollCycles 1 (replicate 30 Throws @ [Throws]) pending0) = 31
   \<and> run (map IntervalFires [1, 1, 2]) (pollCycles 1 (replicate 30 Throws @ [Throws]) pending0)
       = pollCycles 1 (replicate 30 Throws @ [Throws]) pending0"
proof -
  have h: "pollingStarted 1 ''0xabc'' pending0 \<and> length (replicate 30 Throws) = 30
           \<and> (\<forall>r\<in>set (replicate 30 Throws). noReceipt r)"
    by (intro conjI pending0_started) (simp_all add: noReceipt_def)
  have n: "noReceipt Throws" by (simp add: noReceipt_def)
  have m: "capMessage (publicClient pending0) Throws
           = ''Unable to confirm transaction. Please check manually.''"
    by (simp add: capMessage_def pending0_fields unableMessage_def)
  from h n retry_cap [where h = 1 and hash = "''0xabc''" and s = pending0
      and rs = "replicate 30 Throws" and ?r31.0 = Throws and hs = "[1, 1, 2]"]
  have "isPending (pollCycles 1 (replicate 30 Throws) pending0)
   \<and> pollCalls (pollCycles 1 (replicate 30 Throws) pending0) = pollCalls pending0 + 30
   \<and> \<not> isPending (pollCycles 1 (replicate 30 Throws @ [Throws]) pending0)
   \<and> toasts (pollCycles 1 (replicate 30 Throws @ [Throws]) pending0)
       = toasts pending0 @ [ToastError (capMessage (publicClient pending0) Throws)]
   \<and> intervals (pollCycles 1 (replicate 30 Throws @ [Throws]) pending0) = []
   \<and> pollCalls (pollCycles 1 (replicate 30 Throws @ [Throws]) pending0) = pollCalls pending0 + 31
   \<and> run (map IntervalFires [1, 1, 2]) (pollCycles 1 (replicate 30 Throws @ [Throws]) pending0)
       = pollCycles 1 (replicate 30 Throws @ [Throws]) pending0"
    by blast
  from this [unfolded pending0_fields(3,4) m append_Nil add_0] show ?thesis .
qed


subsection \<open>The confirmation tracker: timeout\<close>








subsection \<open>The confirmation tracker: teardown\<close>

lemma render_ledger:
  "ledgerCalls (render d s) = ledgerCalls s" "transactions (render d s) = transactions s"
  by (simp_all add: render_def pollingEffect_def hook_upds)

lemma filter_all_same: "\<forall>p\<in>set xs. fst p = h \<Longrightarrow> filter (\<lambda>p. fst p \<noteq> h) xs = []"
  by (induction xs) simp_all

lemma clearPolling_all:
  assumes "\<forall>p\<in>set (intervals s). pollingIntervalRef s = Some (fst p)"
  shows "intervals (clearPolling s) = []"
proof (cases "pollingIntervalRef s")
  case None
  with assms have "intervals s = []" by (cases "intervals s") auto
  then show ?thesis by (simp add: hook_upds None)
next
  case (Some h)
  with assms have "\<forall>p\<in>set (intervals s). fst p = h" by auto
  then show ?thesis by (simp add: hook_upds Some filter_all_same)
qed

lemma reset_fields:
  "ledgerCalls (resetSwapState s) = ledgerCalls s" "transactions (resetSwapState s) = transactions s"
  "inflight (resetSwapState s) = inflight s" "\<not> isPending (resetSwapState s)"
  "txHash (resetSwapState s) = []" "pollingIntervalRef (resetSwapState s) = pollingIntervalRef s"
  by (simp_all add: resetSwapState_def hook_upds)

lemma reset_intervals:
  assumes "\<forall>p\<in>set (intervals s). pollingIntervalRef s = Some (fst p)"
  shows "intervals (resetSwapState s) = []"
proof -
  let ?u = "s\<lparr>checkSuccess := False, transactionSuccess := False, successPop := False,
          txHash := [], isPending := False, timeLeft := 0,
          completedExchangeAmount := [], completedReceivedAmount := [],
          completedFromToken := None, completedToToken := None,
          isLoading := False, retryCountRef := 0\<rparr>"
  have "\<forall>p\<in>set (intervals ?u). pollingIntervalRef ?u = Some (fst p)" using assms by simp
  then have "intervals (clearPolling ?u) = []" by (rule clearPolling_all)
  then show ?thesis by (simp only: resetSwapState_def)
qed

lemma render_idle:
  assumes "\<not> isPending s" and "intervals s = []"
  shows "render d s = s"
  using assms by (simp add: render_def pollingEffect_def hook_upds split: option.splits)

lemma reset_step:
  assumes "\<forall>p\<in>set (intervals s). pollingIntervalRef s = Some (fst p)"
  shows "step ResetSwapState s = resetSwapState s"
  unfolding step.simps
  by (rule render_idle [OF reset_fields(4) reset_intervals [OF assms]])

lemma resolve_no_receipt:
  assumes "noReceipt r"
  shows "ledgerCalls (step (PollResolves i r) t) = ledgerCalls t
         \<and> transactions (step (PollResolves i r) t) = transactions t"
  using assms
  by (cases r) (simp_all add: noReceipt_def render_ledger pollContinue_def retryLimit_def
      hook_upds Let_def)

lemma resolve_receipt:
  assumes "i < length (inflight t)"
    and "find (\<lambda>x. tx_hash x = fst (inflight t ! i)) (transactions t) = Some tx"
  shows "ledgerCalls (step (PollResolves i (Receipt Success)) t)
           = ledgerCalls t @ [UpdateTransaction (tx_id tx) CONFIRMED]"
    and "ledgerCalls (step (PollResolves i (Receipt Reverted)) t)
           = ledgerCalls t @ [UpdateTransaction (tx_id tx) FAILED]"
  using assms
  by (simp_all add: render_ledger pollContinue_def hook_upds Let_def)

lemma resolve_never_adds:
  "ledgerCalls (step (PollResolves i r) t) = ledgerCalls t
   \<or> (\<exists>k st. ledgerCalls (step (PollResolves i r) t) = ledgerCalls t @ [UpdateTransaction k st])"
proof (cases "noReceipt r")
  case True
  then show ?thesis by (simp only: resolve_no_receipt) simp
next
  case False
  then obtain st where r: "r = Receipt st"
    by (cases r) (simp_all add: noReceipt_def)
  show ?thesis
    unfolding r
    by (cases st)
       (simp_all add: render_ledger pollContinue_def hook_upds Let_def split: option.splits)
qed

text \<open>
  Claim C1, as the hook implements it. When every live interval is the one the ref holds,
  \<open>resetSwapState\<close> clears the polling interval and ends the pending state, so no
  interval fires any more and no new poll is started; it writes nothing to the ledger. A
  poll that was in flight and is answered after \<open>resetSwapState\<close> never calls
  \<open>addTransaction\<close>, and makes no ledger call when it finds no receipt; but there is no
  liveness guard: when it is answered with a receipt and its hash is in the ledger, it
  calls \<open>_updateTransaction\<close> with \<open>CONFIRMED\<close> (success) or \<open>FAILED\<close> (revert).
\<close>

theorem teardown_ledger:
  "(\<forall>p\<in>set (intervals s). pollingIntervalRef s = Some (fst p)) \<longrightarrow>
     intervals (step ResetSwapState s) = []
   \<and> \<not> isPending (step ResetSwapState s)
   \<and> run (map IntervalFires hs) (step ResetSwapState s) = step ResetSwapState s
   \<and> ledgerCalls (step ResetSwapState s) = ledgerCalls s
   \<and> (noReceipt r \<longrightarrow>
        ledgerCalls (step (PollResolves i r) (step ResetSwapState s)) = ledgerCalls s
        \<and> transactions (step (PollResolves i r) (step ResetSwapState s)) = transactions s)
   \<and> (ledgerCalls (step (PollResolves i r) (step ResetSwapState s)) = ledgerCalls s
      \<or> (\<exists>k st. ledgerCalls (step (PollResolves i r) (step ResetSwapState s))
                   = ledgerCalls s @ [UpdateTransaction k st]))
   \<and> (i < length (inflight s)
        \<and> find (\<lambda>x. tx_hash x = fst (inflight s ! i)) (transactions s) = Some tx \<longrightarrow>
        ledgerCalls (step (PollResolves i (Receipt Success)) (step ResetSwapState s))
          = ledgerCalls s @ [UpdateTransaction (tx_id tx) CONFIRMED]
        \<and> ledgerCalls (step (PollResolves i (Receipt Reverted)) (step ResetSwapState s))
          = ledgerCalls s @ [UpdateTransaction (tx_id tx) FAILED])"
proof (intro impI)
  assume a: "\<forall>p\<in>set (intervals s). pollingIntervalRef s = Some (fst p)"
  let ?t = "resetSwapState s"
  note e = reset_step [OF a]
  have c1: "intervals ?t = []" by (rule reset_intervals [OF a])
  have c2: "\<not> isPending ?t" by (rule reset_fields)
  have c3: "run (map IntervalFires hs) ?t = ?t" by (rule run_fires_nothing [OF c1])
  have c4: "ledgerCalls ?t = ledgerCalls s" by (rule reset_fields)
  have c5: "ledgerCalls (step (PollResolves i r) ?t) = ledgerCalls s
        \<and> transactions (step (PollResolves i r) ?t) = transactions s" if "noReceipt r"
    using resolve_no_receipt [OF that, of i ?t] by (simp only: reset_fields)
  have c6: "ledgerCalls (step (PollResolves i r) ?t) = ledgerCalls s
      \<or> (\<exists>k st. ledgerCalls (step (PollResolves i r) ?t) = ledgerCalls s @ [UpdateTransaction k st])"
    using resolve_never_adds [of i r ?t] by (simp only: reset_fields)
  have c7: "ledgerCalls (step (PollResolves i (Receipt Success)) ?t)
          = ledgerCalls s @ [UpdateTransaction (tx_id tx) CONFIRMED]
        \<and> ledgerCalls (step (PollResolves i (Receipt Reverted)) ?t)
          = ledgerCalls s @ [UpdateTransaction (tx_id tx) FAILED]"
    if "i < length (inflight s) \<and> find (\<lambda>x. tx_hash x = fst (inflight s ! i)) (transactions s) = Some tx"
  proof -
    from that have i: "i < length (inflight ?t)"
      and f: "find (\<lambda>x. tx_hash x = fst (inflight ?t ! i)) (transactions ?t) = Some tx"
      by (simp_all only: reset_fields)
    from resolve_receipt [OF i f] show ?thesis by (simp only: reset_fields)
  qed
  from c1 c2 c3 c4 c5 c6 c7 show "intervals (step ResetSwapState s) = []
   \<and> \<not> isPending (step ResetSwapState s)
   \<and> run (map IntervalFires hs) (step ResetSwapState s) = step ResetSwapState s
   \<and> ledgerCalls (step ResetSwapState s) = ledgerCalls s
   \<and> (noReceipt r \<longrightarrow>
        ledgerCalls (step (PollResolves i r) (step ResetSwapState s)) = ledgerCalls s
        \<and> transactions (step (PollResolves i r) (step ResetSwapState s)) = transactions s)
   \<and> (ledgerCalls (step (PollResolves i r) (step ResetSwapState s)) = ledgerCalls s
      \<or> (\<exists>k st. ledgerCalls (step (PollResolves i r) (step ResetSwapState s))
                   = ledgerCalls s @ [UpdateTransaction k st]))
   \<and> (i < length (inflight s)
        \<and> find (\<lambda>x. tx_hash x = fst (inflight s ! i)) (transactions s) = Some tx \<longrightarrow>
        ledgerCalls (step (PollResolves i (Receipt Success)) (step ResetSwapState s))
          = ledgerCalls s @ [UpdateTransaction (tx_id tx) CONFIRMED]
        \<and> ledgerCalls (step (PollResolves i (Receipt Reverted)) (step ResetSwapState s))
          = ledgerCalls s @ [UpdateTransaction (tx_id tx) FAILED])"
    unfolding e by blast
qed


lemma polled0_eq:
  "polled0 = pending0\<lparr>retryCountRef := Suc 0, inflight := [(''0xabc'', 0)], pollCalls := Suc 0\<rparr>"
proof -
  have "step (IntervalFires 1) pending0
        = pending0\<lparr>retryCountRef := Suc (retryCountRef pending0),
             inflight := inflight pending0 @ [(''0xabc'', retryCountRef pending0)],
             pollCalls := Suc (pollCalls pending0)\<rparr>"
    by (rule fire_in_flight) (simp_all add: pending0_fields)
  then show ?thesis
    by (simp add: polled0_def pending0_eq mounted_def)
qed

lemma polled0_fields:
  "intervals polled0 = [(1, ''0xabc'')]" "pollingIntervalRef polled0 = Some 1"
  "inflight polled0 = [(''0xabc'', 0)]" "ledgerCalls polled0 = [AddTransaction ''0xabc'']"
  "transactions polled0 = [\<lparr>tx_id = 0, tx_hash = ''0xabc'', tx_type = SWAP, tx_amount = ''10'',
             tx_tokenSymbol = ''AAA'', tx_network = ''Ethereum'', tx_status = PENDING,
             tx_fromToken = Some ''AAA'', tx_toToken = Some ''BBB''\<rparr>]"
  by (simp_all add: polled0_eq pending0_eq mounted_def)

theorem teardown_ledger_witness:
  "intervals (step ResetSwapState polled0) = []
   \<and> \<not> isPending (step ResetSwapState polled0)
   \<and> run (map IntervalFires [1, 2]) (step ResetSwapState polled0) = step ResetSwapState polled0
   \<and> ledgerCalls (step (PollResolves 0 Throws) (step ResetSwapState polled0))
       = [AddTransaction ''0xabc'']
   \<and> ledgerCalls (step (PollResolves 0 (Receipt Reverted)) (step ResetSwapState polled0))
       = [AddTransaction ''0xabc'', UpdateTransaction 0 FAILED]"
proof -
  let ?tx = "\<lparr>tx_id = 0, tx_hash = ''0xabc'', tx_type = SWAP, tx_amount = ''10'',
             tx_tokenSymbol = ''AAA'', tx_network = ''Ethereum'', tx_status = PENDING,
             tx_fromToken = Some ''AAA'', tx_toToken = Some ''BBB''\<rparr>"
  have h1: "\<forall>p\<in>set (intervals polled0). pollingIntervalRef polled0 = Some (fst p)"
    by (simp add: polled0_fields)
  have h2: "noReceipt Throws" by (simp add: noReceipt_def)
  have h3: "0 < length (inflight polled0)
            \<and> find (\<lambda>x. tx_hash x = fst (inflight polled0 ! 0)) (transactions polled0) = Some ?tx"
    by (simp add: polled0_fields)
  from h1 h2 teardown_ledger [where s = polled0 and hs = "[1, 2]" and r = Throws and i = 0]
  have c1: "intervals (step ResetSwapState polled0) = []
   \<and> \<not> isPending (step ResetSwapState polled0)
   \<and> run (map IntervalFires [1, 2]) (step ResetSwapState polled0) = step ResetSwapState polled0
   \<and> ledgerCalls (step (PollResolves 0 Throws) (step ResetSwapState polled0)) = ledgerCalls polled0"
    by blast
  from h1 h3 teardown_ledger [where s = polled0 and i = 0 and tx = ?tx]
  have c2: "ledgerCalls (step (PollResolves 0 (Receipt Reverted)) (step ResetSwapState polled0))
       = ledgerCalls polled0 @ [UpdateTransaction (tx_id ?tx) FAILED]"
    by blast
  have l: "ledgerCalls polled0 @ [UpdateTransaction (tx_id ?tx) FAILED]
           = [AddTransaction ''0xabc'', UpdateTransaction 0 FAILED]"
    by (simp add: polled0_fields)
  from c1 c2 [unfolded l] show ?thesis
    unfolding polled0_fields(4) by blast
qed

text \<open>
  The claim as the specification words it fails: a poll that is in flight when
  \<open>resetSwapState\<close> runs and is answered with a receipt afterwards still calls
  \<open>_updateTransaction\<close>; the ledger entry becomes \<open>CONFIRMED\<close>.
\<close>

theorem teardown_ledger_counterexample:
  "ledgerCalls (step ResetSwapState polled0) = [AddTransaction ''0xabc'']
   \<and> intervals (step ResetSwapState polled0) = []
   \<and> ledgerCalls (step (PollResolves 0 (Receipt Success)) (step ResetSwapState polled0))
       = [AddTransaction ''0xabc'', UpdateTransaction 0 CONFIRMED]
   \<and> map tx_status (transactions (step (PollResolves 0 (Receipt Success))
         (step ResetSwapState polled0))) = [CONFIRMED]"
proof -
  have h1: "\<forall>p\<in>set (intervals polled0). pollingIntervalRef polled0 = Some (fst p)"
    by (simp add: polled0_fields)
  note e = reset_step [OF h1]
  have a: "ledgerCalls (resetSwapState polled0) = [AddTransaction ''0xabc'']"
    by (simp add: reset_fields polled0_fields)
  have b: "intervals (resetSwapState polled0) = []"
    by (rule reset_intervals [OF h1])
  have i: "0 < length (inflight (resetSwapState polled0))"
    by (simp add: reset_fields polled0_fields)
  have c: "ledgerCalls (step (PollResolves 0 (Receipt Success)) (resetSwapState polled0))
       = [AddTransaction ''0xabc'', UpdateTransaction 0 CONFIRMED]"
    using i by (simp add: render_ledger pollContinue_def hook_upds Let_def reset_fields polled0_fields)
  have d: "map tx_status (transactions (step (PollResolves 0 (Receipt Success))
         (resetSwapState polled0))) = [CONFIRMED]"
    using i by (simp add: render_ledger pollContinue_def hook_upds Let_def reset_fields polled0_fields
        updateTransaction_def)
  from a b c d show ?thesis unfolding e by blast
qed


text \<open>
  Claim C4. For a request with a (truthy) amount \<open>X\<close>, \<open>getTokenConversion\<close> returns
  \<open>toAmount = X * (B / A)\<close>, where \<open>A\<close> and \<open>B\<close> are the \<open>fromAmount\<close> and
  \<open>toAmount\<close> of the quote used: the cached quote on a hit, the backend's quote on a
  miss. Both paths compute the amount by the same formula, for any arithmetic of numbers.
\<close>

theorem conversion_scaling:
  "(\<not> num_falsy ops (cp_amount params)
      \<and> fst (getCachedConversion now (localStorage st)
               (generateCacheKey (cp_network params) (cp_fromToken params) (cp_toToken params)))
          = Some cached
    \<longrightarrow> gc_success (fst (getTokenConversion ops now later w response params st))
        \<and> gc_fromCache (fst (getTokenConversion ops now later w response params st)) = Some True
        \<and> map_option cd_toAmount
             (gc_conversion (fst (getTokenConversion ops now later w response params st)))
           = Some (num_times ops (cp_amount params)
                     (num_divide ops (cd_toAmount cached) (cd_fromAmount cached))))
   \<and> (\<not> num_falsy ops (cp_amount params)
      \<and> fst (getCachedConversion now (localStorage st)
               (generateCacheKey (cp_network params) (cp_fromToken params) (cp_toToken params)))
          = None
      \<and> response = ApiData fresh
    \<longrightarrow> gc_success (fst (getTokenConversion ops now later w response params st))
        \<and> gc_fromCache (fst (getTokenConversion ops now later w response params st)) = Some False
        \<and> map_option cd_toAmount
             (gc_conversion (fst (getTokenConversion ops now later w response params st)))
           = Some (num_times ops (cp_amount params)
                     (num_divide ops (cd_toAmount fresh) (cd_fromAmount fresh))))"
  by (auto simp: getTokenConversion_def scaledConversion_def Let_def split: prod.splits)

theorem conversion_scaling_witness:
  "map_option cd_toAmount (gc_conversion (fst (getTokenConversion ratOps 100000 100500 True
       (ApiThrows ''offline'') params0 (serviceWith (Map.empty(key0 \<mapsto> Parsed (cachedAt (Some 50000))))))))
     = Some 15
   \<and> map_option cd_toAmount (gc_conversion (fst (getTokenConversion ratOps 100000 100500 True
       (ApiData quote0) params0 (serviceWith Map.empty))))
     = Some 15"
proof -
  let ?hit = "serviceWith (Map.empty(key0 \<mapsto> Parsed (cachedAt (Some 50000))))"
  have k: "generateCacheKey (cp_network params0) (cp_fromToken params0) (cp_toToken params0) = key0"
    by (simp add: key0_def params0_def)
  have h0: "\<not> num_falsy ratOps (cp_amount params0)"
    by (simp add: ratOps_def params0_def)
  have h1: "fst (getCachedConversion 100000 (localStorage ?hit)
                  (generateCacheKey (cp_network params0) (cp_fromToken params0) (cp_toToken params0)))
            = Some (cachedAt (Some 50000))"
    unfolding k
    by (simp add: getCachedConversion_def serviceWith_def isCacheExpired_def cachedAt_def
        conversion_data.extend_def cached_conversion_data.fields_def)
  have h2: "fst (getCachedConversion 100000 (localStorage (serviceWith Map.empty))
                  (generateCacheKey (cp_network params0) (cp_fromToken params0) (cp_toToken params0)))
            = None"
    by (simp add: getCachedConversion_def serviceWith_def)
  have v1: "num_times ratOps (cp_amount params0)
              (num_divide ratOps (cd_toAmount (cachedAt (Some 50000)))
                 (cd_fromAmount (cachedAt (Some 50000)))) = 15"
    by (simp add: ratOps_def params0_def cachedAt_def quote0_def
        conversion_data.extend_def cached_conversion_data.fields_def)
  have v2: "num_times ratOps (cp_amount params0)
              (num_divide ratOps (cd_toAmount quote0) (cd_fromAmount quote0)) = 15"
    by (simp add: ratOps_def params0_def quote0_def)
  from h0 h1 conversion_scaling [where ops = ratOps and params = params0 and now = 100000
      and later = 100500 and w = True and response = "ApiThrows ''offline''" and st = ?hit
      and cached = "cachedAt (Some 50000)"]
  have c1: "map_option cd_toAmount (gc_conversion (fst (getTokenConversion ratOps 100000 100500 True
       (ApiThrows ''offline'') params0 ?hit)))
     = Some (num_times ratOps (cp_amount params0)
              (num_divide ratOps (cd_toAmount (cachedAt (Some 50000)))
                 (cd_fromAmount (cachedAt (Some 50000)))))"
    by blast
  from h0 h2 conversion_scaling [where ops = ratOps and params = params0 and now = 100000
      and later = 100500 and w = True and response = "ApiData quote0"
      and st = "serviceWith Map.empty" and fresh = quote0]
  have c2: "map_option cd_toAmount (gc_conversion (fst (getTokenConversion ratOps 100000 100500 True
       (ApiData quote0) params0 (serviceWith Map.empty))))
     = Some (num_times ratOps (cp_amount params0)
              (num_divide ratOps (cd_toAmount quote0) (cd_fromAmount quote0)))"
    by blast
  from c1 c2 v1 v2 show ?thesis by simp
qed

text \<open>
  Claim C7. \<open>getCachedConversion\<close> never returns an entry that lacks a (truthy)
  timestamp or is older than 120 seconds: it returns \<open>null\<close> and removes the entry from
  the storage, and \<open>getTokenConversion\<close> then asks the backend for a fresh quote. An
  entry with a timestamp at most 120 seconds old is returned and the storage is unchanged.
\<close>

theorem cache_expiry:
  "(storage key = Some (Parsed c)
      \<and> (timestamp c = None \<or> timestamp c = Some 0 \<or> (\<exists>t. timestamp c = Some t \<and> now - t > 120000))
    \<longrightarrow> getCachedConversion now storage key = (None, storage(key := None)))
   \<and> (storage key = Some (Parsed c)
      \<and> (\<exists>t. timestamp c = Some t \<and> t \<noteq> 0 \<and> now - t \<le> 120000)
    \<longrightarrow> getCachedConversion now storage key = (Some c, storage))
   \<and> (localStorage st (generateCacheKey (cp_network params) (cp_fromToken params) (cp_toToken params))
        = Some (Parsed c)
      \<and> (timestamp c = None \<or> timestamp c = Some 0 \<or> (\<exists>t. timestamp c = Some t \<and> now - t > 120000))
      \<and> \<not> num_falsy ops (cp_amount params)
    \<longrightarrow> requests (snd (getTokenConversion ops now later w response params st))
          = requests st @ [''/apiSwap/getConvert'']
        \<and> gc_fromCache (fst (getTokenConversion ops now later w response params st)) \<noteq> Some True)"
proof -
  have a: "getCachedConversion now storage key = (None, storage(key := None))"
    if "storage key = Some (Parsed c)"
      and "timestamp c = None \<or> timestamp c = Some 0 \<or> (\<exists>t. timestamp c = Some t \<and> now - t > 120000)"
    for storage :: "'a local_storage" and key c
    using that by (auto simp: getCachedConversion_def isCacheExpired_def)
  have b: "getCachedConversion now storage key = (Some c, storage)"
    if "storage key = Some (Parsed c)"
      and "\<exists>t. timestamp c = Some t \<and> t \<noteq> 0 \<and> now - t \<le> 120000"
    using that by (auto simp: getCachedConversion_def isCacheExpired_def)
  have c: "requests (snd (getTokenConversion ops now later w response params st))
          = requests st @ [''/apiSwap/getConvert'']
        \<and> gc_fromCache (fst (getTokenConversion ops now later w response params st)) \<noteq> Some True"
    if "localStorage st (generateCacheKey (cp_network params) (cp_fromToken params) (cp_toToken params))
        = Some (Parsed c)"
      and "timestamp c = None \<or> timestamp c = Some 0 \<or> (\<exists>t. timestamp c = Some t \<and> now - t > 120000)"
      and "\<not> num_falsy ops (cp_amount params)"
    using that a [of "localStorage st"
        "generateCacheKey (cp_network params) (cp_fromToken params) (cp_toToken params)" c]
    by (cases response) (simp_all add: getTokenConversion_def conversionFailed_def Let_def)
  from a b c show ?thesis by blast
qed

theorem cache_expiry_witness:
  "getCachedConversion 200000 (Map.empty(key0 \<mapsto> Parsed (cachedAt (Some 50000)))) key0
     = (None, (Map.empty(key0 \<mapsto> Parsed (cachedAt (Some 50000))))(key0 := None))
   \<and> getCachedConversion 170000 (Map.empty(key0 \<mapsto> Parsed (cachedAt (Some 50000)))) key0
     = (Some (cachedAt (Some 50000)), Map.empty(key0 \<mapsto> Parsed (cachedAt (Some 50000))))
   \<and> requests (snd (getTokenConversion ratOps 200000 200500 True (ApiData quote0) params0
        (serviceWith (Map.empty(key0 \<mapsto> Parsed (cachedAt None))))))
     = [''/apiSwap/getConvert'']"
proof -
  let ?s = "Map.empty(key0 \<mapsto> Parsed (cachedAt (Some 50000)))"
  let ?n = "serviceWith (Map.empty(key0 \<mapsto> Parsed (cachedAt None)))"
  have t: "timestamp (cachedAt x) = x" for x
    by (simp add: cachedAt_def conversion_data.extend_def cached_conversion_data.fields_def)
  have k: "generateCacheKey (cp_network params0) (cp_fromToken params0) (cp_toToken params0) = key0"
    by (simp add: key0_def params0_def)
  have h1: "?s key0 = Some (Parsed (cachedAt (Some 50000)))
            \<and> (timestamp (cachedAt (Some 50000)) = None \<or> timestamp (cachedAt (Some 50000)) = Some 0
               \<or> (\<exists>t. timestamp (cachedAt (Some 50000)) = Some t \<and> 200000 - t > 120000))"
    by (simp add: t)
  have h2: "?s key0 = Some (Parsed (cachedAt (Some 50000)))
            \<and> (\<exists>t. timestamp (cachedAt (Some 50000)) = Some t \<and> t \<noteq> 0 \<and> 170000 - t \<le> 120000)"
    by (simp add: t)
  have h3: "localStorage ?n
              (generateCacheKey (cp_network params0) (cp_fromToken params0) (cp_toToken params0))
            = Some (Parsed (cachedAt None))
            \<and> (timestamp (cachedAt None) = None \<or> timestamp (cachedAt None) = Some 0
               \<or> (\<exists>t. timestamp (cachedAt None) = Some t \<and> 200000 - t > 120000))
            \<and> \<not> num_falsy ratOps (cp_amount params0)"
    unfolding k by (simp add: t serviceWith_def ratOps_def params0_def)
  from h1 cache_expiry [where storage = ?s and key = key0 and c = "cachedAt (Some 50000)"
      and now = 200000]
  have c1: "getCachedConversion 200000 ?s key0 = (None, ?s(key0 := None))" by blast
  from h2 cache_expiry [where storage = ?s and key = key0 and c = "cachedAt (Some 50000)"
      and now = 170000]
  have c2: "getCachedConversion 170000 ?s key0 = (Some (cachedAt (Some 50000)), ?s)" by blast
  from h3 cache_expiry [where st = ?n and params = params0 and c = "cachedAt None"
      and now = 200000 and ops = ratOps and later = 200500 and w = True
      and response = "ApiData quote0"]
  have c3: "requests (snd (getTokenConversion ratOps 200000 200500 True (ApiData quote0) params0 ?n))
     = requests ?n @ [''/apiSwap/getConvert'']" by blast
  have r: "requests ?n = []" by (simp add: serviceWith_def)
  from c1 c2 c3 r show ?thesis by simp
qed

text \<open>
  Claim C8, as the hook implements it. For a selected token that carries the \<open>native\<close>
  tag or whose symbol is one of the direct-transfer symbols, the allowance effect sets
  \<open>isApproved\<close> to true and requests nothing. For any other selected token, when the
  user has a wallet address, the effect requests \<open>/apiSwap/getAllowance\<close> once and sets
  \<open>isApproved\<close> to true exactly when the backend returned an allowance that \<open>Number\<close>
  reads as strictly positive. When there is no wallet address (or no user), the effect
  sets \<open>isApproved\<close> to true and requests nothing, whatever the token.
\<close>

theorem allowance_bypass:
  "(hasNativeTag tok \<or> symbol tok \<in> set directSymbols
      \<longrightarrow> allowanceEffect Number (Some tok) usr response = (True, []))
   \<and> (\<not> hasNativeTag tok \<and> symbol tok \<notin> set directSymbols \<and> \<not> noWalletAddress usr
      \<longrightarrow> snd (allowanceEffect Number (Some tok) usr response) = [''/apiSwap/getAllowance'']
        \<and> (fst (allowanceEffect Number (Some tok) usr response)
             \<longleftrightarrow> (\<exists>d. response = ApiData d \<and> js_gt (Number (ad_allowance d)) (Fin 0))))
   \<and> (noWalletAddress usr \<longrightarrow> allowanceEffect Number (Some tok) usr response = (True, []))"
  by (cases response) (auto simp: allowanceEffect_def checkAllowance_def)

theorem allowance_bypass_witness:
  "allowanceEffect number0 (Some nativeTok) (Some alice) (ApiData (allowanceOf ''0'')) = (True, [])
   \<and> allowanceEffect number0 (Some usdtTok) (Some alice) (ApiData (allowanceOf ''0'')) = (True, [])
   \<and> allowanceEffect number0 (Some tokB) (Some alice) (ApiData (allowanceOf ''1000''))
       = (True, [''/apiSwap/getAllowance''])
   \<and> allowanceEffect number0 (Some tokB) (Some alice) (ApiData (allowanceOf ''0''))
       = (False, [''/apiSwap/getAllowance''])
   \<and> allowanceEffect number0 (Some tokB) None (ApiData (allowanceOf ''0'')) = (True, [])"
proof -
  have n1: "hasNativeTag nativeTok \<or> symbol nativeTok \<in> set directSymbols"
    by (simp add: hasNativeTag_def nativeTok_def)
  have n2: "hasNativeTag usdtTok \<or> symbol usdtTok \<in> set directSymbols"
    by (simp add: usdtTok_def directSymbols_def)
  have n3: "\<not> hasNativeTag tokB \<and> symbol tokB \<notin> set directSymbols \<and> \<not> noWalletAddress (Some alice)"
    by (simp add: hasNativeTag_def tokB_def directSymbols_def noWalletAddress_def alice_def)
  have n4: "noWalletAddress None"
    by (simp add: noWalletAddress_def)
  have p1: "\<exists>d. ApiData (allowanceOf ''1000'') = ApiData d \<and> js_gt (number0 (ad_allowance d)) (Fin 0)"
    by (simp add: allowanceOf_def number0_def js_gt_def)
  have p2: "\<not> (\<exists>d. ApiData (allowanceOf ''0'') = ApiData d \<and> js_gt (number0 (ad_allowance d)) (Fin 0))"
    by (simp add: allowanceOf_def number0_def js_gt_def)
  from n1 allowance_bypass [where tok = nativeTok and Number = number0 and usr = "Some alice"
      and response = "ApiData (allowanceOf ''0'')"]
  have c1: "allowanceEffect number0 (Some nativeTok) (Some alice) (ApiData (allowanceOf ''0''))
            = (True, [])" by blast
  from n2 allowance_bypass [where tok = usdtTok and Number = number0 and usr = "Some alice"
      and response = "ApiData (allowanceOf ''0'')"]
  have c2: "allowanceEffect number0 (Some usdtTok) (Some alice) (ApiData (allowanceOf ''0''))
            = (True, [])" by blast
  from n3 p1 allowance_bypass [where tok = tokB and Number = number0 and usr = "Some alice"
      and response = "ApiData (allowanceOf ''1000'')"]
  have c3: "snd (allowanceEffect number0 (Some tokB) (Some alice) (ApiData (allowanceOf ''1000'')))
              = [''/apiSwap/getAllowance'']
            \<and> fst (allowanceEffect number0 (Some tokB) (Some alice) (ApiData (allowanceOf ''1000'')))"
    by blast
  from n3 p2 allowance_bypass [where tok = tokB and Number = number0 and usr = "Some alice"
      and response = "ApiData (allowanceOf ''0'')"]
  have c4: "snd (allowanceEffect number0 (Some tokB) (Some alice) (ApiData (allowanceOf ''0'')))
              = [''/apiSwap/getAllowance'']
            \<and> \<not> fst (allowanceEffect number0 (Some tokB) (Some alice) (ApiData (allowanceOf ''0'')))"
    by blast
  from n4 allowance_bypass [where tok = tokB and Number = number0 and usr = None
      and response = "ApiData (allowanceOf ''0'')"]
  have c5: "allowanceEffect number0 (Some tokB) None (ApiData (allowanceOf ''0'')) = (True, [])"
    by blast
  from c1 c2 c3 c4 c5 show ?thesis
    by (metis (full_types) prod.collapse)
qed

text \<open>
  The claim as the specification words it fails for a token that is neither native nor
  direct when the user has no wallet address: the backend is not asked, and the token
  counts as approved although no positive allowance was returned.
\<close>

theorem allowance_bypass_counterexample:
  "\<not> hasNativeTag tokB \<and> symbol tokB \<notin> set directSymbols
   \<and> snd (allowanceEffect number0 (Some tokB) None (ApiData (allowanceOf ''0''))) = []
   \<and> fst (allowanceEffect number0 (Some tokB) None (ApiData (allowanceOf ''0'')))
   \<and> \<not> js_gt (number0 (ad_allowance (allowanceOf ''0''))) (Fin 0)"
  by (simp add: allowanceEffect_def noWalletAddress_def hasNativeTag_def tokB_def
      directSymbols_def allowanceOf_def number0_def js_gt_def)



subsection \<open>Validation and the rounding of parseFloat\<close>



















text \<open>
  Claim C6. In \<open>executeSwap\<close> of \<open>useSwap\<close>: when validation fails the result is
  \<open>{success: false, error: "Validation failed"}\<close> and neither approval nor submission
  is invoked; when the intent is valid and the source token is neither allowance-approved
  nor native, \<open>approveToken\<close> is invoked first, and if it fails the result is
  \<open>{success: false, error: "Token approval failed"}\<close> and the submission is never
  invoked; if it succeeds the submission follows the approval and its result is returned.
\<close>

theorem executeSwap_preflight:
  "(\<not> validateSwap pf fr to ex \<longrightarrow>
      useSwap_executeSwap pf fr to ex allowed native approval r
        = (\<lparr>st_success = False, st_txHash = None, st_error = Some ''Validation failed''\<rparr>, []))
   \<and> (validateSwap pf fr to ex \<and> \<not> allowed \<and> \<not> native \<and> \<not> approval \<longrightarrow>
      useSwap_executeSwap pf fr to ex allowed native approval r
        = (\<lparr>st_success = False, st_txHash = None, st_error = Some ''Token approval failed''\<rparr>,
           [ApproveToken]))
   \<and> (validateSwap pf fr to ex \<and> \<not> allowed \<and> \<not> native \<and> approval \<longrightarrow>
      useSwap_executeSwap pf fr to ex allowed native approval r
        = (r, [ApproveToken, ExecuteSwapTransaction]))"
  by (simp add: useSwap_executeSwap_def)

theorem executeSwap_preflight_witness:
  "useSwap_executeSwap pf0 (Some tokA) (Some tokA) ''10'' False False True
        \<lparr>st_success = True, st_txHash = Some ''0xabc'', st_error = None\<rparr>
     = (\<lparr>st_success = False, st_txHash = None, st_error = Some ''Validation failed''\<rparr>, [])
   \<and> useSwap_executeSwap pf0 (Some tokA) (Some tokB) ''10'' False False False
        \<lparr>st_success = True, st_txHash = Some ''0xabc'', st_error = None\<rparr>
     = (\<lparr>st_success = False, st_txHash = None, st_error = Some ''Token approval failed''\<rparr>,
        [ApproveToken])
   \<and> useSwap_executeSwap pf0 (Some tokA) (Some tokB) ''10'' False False True
        \<lparr>st_success = True, st_txHash = Some ''0xabc'', st_error = None\<rparr>
     = (\<lparr>st_success = True, st_txHash = Some ''0xabc'', st_error = None\<rparr>,
        [ApproveToken, ExecuteSwapTransaction])"
proof -
  have v1: "\<not> validateSwap pf0 (Some tokA) (Some tokA) ''10''"
    by (simp add: validateSwap_def)
  have v2: "validateSwap pf0 (Some tokA) (Some tokB) ''10''"
    by (simp add: validateSwap_def tokA_def tokB_def pf0_def js_gt_def)
  from v1 executeSwap_preflight [where pf = pf0 and fr = "Some tokA" and to = "Some tokA"
      and ex = "''10''" and allowed = False and native = False and approval = True
      and r = "\<lparr>st_success = True, st_txHash = Some ''0xabc'', st_error = None\<rparr>"]
  have c1: "useSwap_executeSwap pf0 (Some tokA) (Some tokA) ''10'' False False True
        \<lparr>st_success = True, st_txHash = Some ''0xabc'', st_error = None\<rparr>
     = (\<lparr>st_success = False, st_txHash = None, st_error = Some ''Validation failed''\<rparr>, [])"
    by blast
  from v2 executeSwap_preflight [where pf = pf0 and fr = "Some tokA" and to = "Some tokB"
      and ex = "''10''" and allowed = False and native = False and approval = False
      and r = "\<lparr>st_success = True, st_txHash = Some ''0xabc'', st_error = None\<rparr>"]
  have c2: "useSwap_executeSwap pf0 (Some tokA) (Some tokB) ''10'' False False False
        \<lparr>st_success = True, st_txHash = Some ''0xabc'', st_error = None\<rparr>
     = (\<lparr>st_success = False, st_txHash = None, st_error = Some ''Token approval failed''\<rparr>,
        [ApproveToken])"
    by blast
  from v2 executeSwap_preflight [where pf = pf0 and fr = "Some tokA" and to = "Some tokB"
      and ex = "''10''" and allowed = False and native = False and approval = True
      and r = "\<lparr>st_success = True, st_txHash = Some ''0xabc'', st_error = None\<rparr>"]
  have c3: "useSwap_executeSwap pf0 (Some tokA) (Some tokB) ''10'' False False True
        \<lparr>st_success = True, st_txHash = Some ''0xabc'', st_error = None\<rparr>
     = (\<lparr>st_success = True, st_txHash = Some ''0xabc'', st_error = None\<rparr>,
        [ApproveToken, ExecuteSwapTransaction])"
    by blast
  from c1 c2 c3 show ?thesis by blast
qed

text \<open>
  Claim C10. When no wallet client is available (\<open>primaryWallet\<close> is \<open>null\<close> or
  \<open>getWalletClient\<close> resolves to nothing), or when \<open>writeContract\<close> /
  \<open>sendTransaction\<close> resolves without a hash, \<open>approveToken\<close> and
  \<open>executeTokenTransfer\<close> resolve with \<open>success: true\<close>, the placeholder hash
  \<open>"tempHash"\<close> and no error.
\<close>

theorem tempHash_without_client_or_hash:
  "(awaitWalletClient pw = Resolves None \<longrightarrow>
      fst (approveToken pw p) = \<lparr>tr_success = True, tr_txHash = Some ''tempHash'', tr_error = None\<rparr>
      \<and> fst (executeTokenTransfer pu pw q)
          = \<lparr>tr_success = True, tr_txHash = Some ''tempHash'', tr_error = None\<rparr>)
   \<and> (awaitWalletClient pw = Resolves (Some wc) \<and> (\<forall>c. writeContract wc c = Resolves None) \<longrightarrow>
      fst (approveToken pw p) = \<lparr>tr_success = True, tr_txHash = Some ''tempHash'', tr_error = None\<rparr>)
   \<and> (awaitWalletClient pw = Resolves (Some wc) \<and> (\<forall>c. writeContract wc c = Resolves None)
        \<and> (\<forall>c. sendTransaction wc c = Resolves None)
        \<and> (\<forall>d. pu (tt_amount q) d = Resolves (u d)) \<longrightarrow>
      fst (executeTokenTransfer pu pw q)
        = \<lparr>tr_success = True, tr_txHash = Some ''tempHash'', tr_error = None\<rparr>)"
  by (simp add: approveToken_def executeTokenTransfer_def succeeded_def hash_or_temp_def Let_def)

theorem tempHash_without_client_or_hash_witness:
  "fst (approveToken None \<lparr>ap_tokenAddress = ''0xaaa'', ap_spenderAddress = ''0x111'',
          ap_unlimited = None\<rparr>)
     = \<lparr>tr_success = True, tr_txHash = Some ''tempHash'', tr_error = None\<rparr>
   \<and> fst (executeTokenTransfer parseUnits0 None
        \<lparr>tt_tokenAddress = ''0xaaa'', tt_recipientAddress = ''0x222'', tt_amount = ''10'',
         tt_decimals = None, tt_isNative = None\<rparr>)
     = \<lparr>tr_success = True, tr_txHash = Some ''tempHash'', tr_error = None\<rparr>
   \<and> fst (approveToken (Some \<lparr>getWalletClient = Resolves (Some noHashClient)\<rparr>)
        \<lparr>ap_tokenAddress = ''0xaaa'', ap_spenderAddress = ''0x111'', ap_unlimited = None\<rparr>)
     = \<lparr>tr_success = True, tr_txHash = Some ''tempHash'', tr_error = None\<rparr>
   \<and> fst (executeTokenTransfer parseUnits0 (Some \<lparr>getWalletClient = Resolves (Some noHashClient)\<rparr>)
        \<lparr>tt_tokenAddress = ''0xaaa'', tt_recipientAddress = ''0x222'', tt_amount = ''10'',
         tt_decimals = None, tt_isNative = Some True\<rparr>)
     = \<lparr>tr_success = True, tr_txHash = Some ''tempHash'', tr_error = None\<rparr>"
proof -
  let ?p = "\<lparr>ap_tokenAddress = ''0xaaa'', ap_spenderAddress = ''0x111'', ap_unlimited = None\<rparr>"
  let ?q = "\<lparr>tt_tokenAddress = ''0xaaa'', tt_recipientAddress = ''0x222'', tt_amount = ''10'',
             tt_decimals = None, tt_isNative = None\<rparr>"
  let ?qn = "\<lparr>tt_tokenAddress = ''0xaaa'', tt_recipientAddress = ''0x222'', tt_amount = ''10'',
             tt_decimals = None, tt_isNative = Some True\<rparr>"
  let ?w = "Some \<lparr>getWalletClient = Resolves (Some noHashClient)\<rparr>"
  have h1: "awaitWalletClient None = Resolves None"
    by (simp add: awaitWalletClient_def)
  have h2: "awaitWalletClient ?w = Resolves (Some noHashClient)
            \<and> (\<forall>c. writeContract noHashClient c = Resolves None)"
    by (simp add: awaitWalletClient_def noHashClient_def)
  have h3: "(\<forall>c. sendTransaction noHashClient c = Resolves None)
            \<and> (\<forall>d. parseUnits0 (tt_amount ?qn) d = Resolves (10 * 10 ^ d))"
    by (simp add: noHashClient_def parseUnits0_def)
  from h1 tempHash_without_client_or_hash [where pw = None and p = ?p and q = ?q
      and pu = parseUnits0]
  have c1: "fst (approveToken None ?p) = \<lparr>tr_success = True, tr_txHash = Some ''tempHash'', tr_error = None\<rparr>
      \<and> fst (executeTokenTransfer parseUnits0 None ?q)
          = \<lparr>tr_success = True, tr_txHash = Some ''tempHash'', tr_error = None\<rparr>"
    by blast
  from h2 tempHash_without_client_or_hash [where pw = ?w and wc = noHashClient and p = ?p]
  have c2: "fst (approveToken ?w ?p) = \<lparr>tr_success = True, tr_txHash = Some ''tempHash'', tr_error = None\<rparr>"
    by blast
  from h2 h3 tempHash_without_client_or_hash [where pw = ?w and wc = noHashClient and q = ?qn
      and pu = parseUnits0 and u = "\<lambda>d. 10 * 10 ^ d"]
  have c3: "fst (executeTokenTransfer parseUnits0 ?w ?qn)
      = \<lparr>tr_success = True, tr_txHash = Some ''tempHash'', tr_error = None\<rparr>"
    by blast
  from c1 c2 c3 show ?thesis by blast
qed

text \<open>
  Claim C9. With default parameters (\<open>unlimited\<close> not given, so \<open>true\<close>)
  \<open>approveToken\<close> hands the wallet an \<open>approve\<close> call whose amount is the decimal
  numeral of \<open>2^256 - 1\<close>, the largest unsigned 256-bit value.
\<close>

theorem approveToken_default_amount:
  "approve_maxAmount None = AmountString
      ''115792089237316195423570985008687907853269984665640564039457584007913129639935''
   \<and> decimal_value
      ''115792089237316195423570985008687907853269984665640564039457584007913129639935''
     = Some (2 ^ 256 - 1)
   \<and> (2::nat) ^ 256 - 1 = unat (- 1 :: 256 word)
   \<and> snd (approveToken (Some \<lparr>getWalletClient = Resolves (Some wc)\<rparr>)
            \<lparr>ap_tokenAddress = tok, ap_spenderAddress = sp, ap_unlimited = None\<rparr>)
     = [WriteContract tok ''approve'' sp (approve_maxAmount None)]"
proof -
  have a: "approve_maxAmount None = AmountString
      ''115792089237316195423570985008687907853269984665640564039457584007913129639935''"
    by (simp add: approve_maxAmount_def)
  have b: "decimal_value
      ''115792089237316195423570985008687907853269984665640564039457584007913129639935''
     = Some (2 ^ 256 - 1)"
    by (simp add: decimal_value_def digit_of_def)
  have c: "(2::nat) ^ 256 - 1 = unat (- 1 :: 256 word)"
    by (simp add: unsigned_minus_1_eq_mask mask_eq_exp_minus_1)
  have d: "snd (approveToken (Some \<lparr>getWalletClient = Resolves (Some wc)\<rparr>)
            \<lparr>ap_tokenAddress = tok, ap_spenderAddress = sp, ap_unlimited = None\<rparr>)
     = [WriteContract tok ''approve'' sp (approve_maxAmount None)]"
    by (simp add: approveToken_def awaitWalletClient_def Let_def split: outcome.splits)
  from a b c d show ?thesis by blast
qed

end
